theory Spec2Isabelle
  imports Main "HOL-Library.Sublist" "HOL-Library.Word"
begin

unbundle bit_operations_syntax

section \<open>JavaScript strings and arrays\<close>

text \<open>
  A JavaScript string is modelled as a \<^typ>\<open>string\<close>, a list of 8-bit characters. The
  operations that count or transform characters (\<^verbatim>\<open>substring\<close>, \<^verbatim>\<open>charCodeAt\<close>,
  \<^verbatim>\<open>toLowerCase\<close>) agree with JavaScript's on ASCII text; beyond ASCII a character of
  the model is a byte of the UTF-8 encoding, where JavaScript counts UTF-16 code units.
\<close>

text \<open>\<^verbatim>\<open>Array.prototype.join(sep)\<close> on an array of strings.\<close>

fun join :: "string \<Rightarrow> string list \<Rightarrow> string" where
  "join sep [] = []"
| "join sep [x] = x"
| "join sep (x # y # ys) = x @ sep @ join sep (y # ys)"

text \<open>\<^verbatim>\<open>s.includes(t)\<close>: \<open>t\<close> occurs in \<open>s\<close> as a contiguous run of characters.\<close>

fun str_includes :: "string \<Rightarrow> string \<Rightarrow> bool" where
  "str_includes [] t = (t = [])"
| "str_includes (c # s) t = (prefix t (c # s) \<or> str_includes s t)"

text \<open>\<^verbatim>\<open>s.substring(0, n)\<close>.\<close>

definition substring0 :: "nat \<Rightarrow> string \<Rightarrow> string" where
  "substring0 n s = take n s"

text \<open>\<^verbatim>\<open>s.toLowerCase()\<close>, on the letters A to Z.\<close>

definition lowerChar :: "char \<Rightarrow> char" where
  "lowerChar c =
     (if 65 \<le> (of_char c :: nat) \<and> (of_char c :: nat) \<le> 90
      then char_of ((of_char c :: nat) + 32) else c)"

definition toLowerCase :: "string \<Rightarrow> string" where
  "toLowerCase s = map lowerChar s"

text \<open>The digits of \<^verbatim>\<open>Number.prototype.toString(radix)\<close>: 0 to 9, then a to z.\<close>

definition digitChar :: "nat \<Rightarrow> char" where
  "digitChar d = (if d < 10 then char_of (48 + d) else char_of (87 + d))"

text \<open>\<^verbatim>\<open>String(n)\<close> of a non-negative integer.\<close>

fun decimal :: "nat \<Rightarrow> string" where
  "decimal n = (if n < 10 then [digitChar n] else decimal (n div 10) @ [digitChar (n mod 10)])"

declare decimal.simps [simp del]

text \<open>\<^verbatim>\<open>n.toString(36)\<close> of a non-negative integer.\<close>

fun base36 :: "nat \<Rightarrow> string" where
  "base36 n = (if n < 36 then [digitChar n] else base36 (n div 36) @ [digitChar (n mod 36)])"

declare base36.simps [simp del]

text \<open>\<^verbatim>\<open>String(i)\<close> of an integer.\<close>

definition String_int :: "int \<Rightarrow> string" where
  "String_int i = (if i < 0 then CHR ''-'' # decimal (nat (- i)) else decimal (nat i))"

section \<open>Messages (sessions.ts, translate.ts)\<close>

text \<open>
  \<^verbatim>\<open>interface Message { role: 'system' | 'user' | 'assistant';
      content: string | Array<{ type: string; text?: string }> }\<close>
\<close>

datatype role = System | User | Assistant

text \<open>The string a role is in the source, as a template literal prints it.\<close>

fun roleString :: "role \<Rightarrow> string" where
  "roleString System = ''system''"
| "roleString User = ''user''"
| "roleString Assistant = ''assistant''"

record part =
  part_type :: string
  part_text :: "string option"

datatype content = Str string | Parts "part list"

record Message =
  role :: role
  content :: content

text \<open>
  \<^verbatim>\<open>extractText\<close> of translate.ts. Its last branch, \<^verbatim>\<open>String(content ?? '')\<close>, is for
  a content that is neither a string nor an array, which the type \<^verbatim>\<open>Message\<close> excludes.
\<close>

definition extractText :: "content \<Rightarrow> string" where
  "extractText c =
     (case c of
        Str s \<Rightarrow> s
      | Parts ps \<Rightarrow>
          join ''\<newline>''
            (map (\<lambda>p. the (part_text p))
               (filter (\<lambda>p. part_type p = ''text'' \<and> part_text p \<noteq> None) ps)))"

record TranslatedInput =
  prompt :: string
  systemPrompt :: "string option"
  isFirstTurn :: bool

text \<open>A thrown value, as \<^verbatim>\<open>handleError\<close> reads it: the text
  \<^verbatim>\<open>error instanceof Error ? error.message : String(error)\<close> and the truthiness of its
  \<^verbatim>\<open>killed\<close> property.\<close>

record js_error =
  errMessage :: string
  killed :: bool

definition translateFirstTurn :: "Message list \<Rightarrow> TranslatedInput" where
  "translateFirstTurn messages =
     (let systemMessages = filter (\<lambda>m. role m = System) messages;
          systemPrompt = (if length systemMessages > 0
                          then Some (join ''\<newline>'' (map (\<lambda>m. extractText (content m)) systemMessages))
                          else None);
          conversation =
            join ''\<newline>\<newline>''
              (map (\<lambda>m. let text = extractText (content m)
                        in if role m = User then ''User: '' @ text
                           else if role m = Assistant then ''Assistant: '' @ text
                           else text)
                 (filter (\<lambda>m. role m \<noteq> System) messages))
      in \<lparr>prompt = conversation, systemPrompt = systemPrompt, isFirstTurn = True\<rparr>)"



definition mapModel :: "string option \<Rightarrow> string \<Rightarrow> string" where
  "mapModel requestModel defaultModel =
     (case requestModel of
        None \<Rightarrow> defaultModel
      | Some m \<Rightarrow>
          if m = [] then defaultModel
          else let normalized = toLowerCase m
               in if str_includes normalized ''haiku'' then ''haiku''
                  else if str_includes normalized ''opus'' then ''opus''
                  else if str_includes normalized ''sonnet'' then ''sonnet''
                  else defaultModel)"

section \<open>The session tracker (sessions.ts)\<close>

record Session =
  claudeSessionId :: string
  turnCount :: int
  lastUsedAt :: int
  messageCount :: int

text \<open>
  The tracker's \<^verbatim>\<open>Map<string, Session>\<close> and its TTL. The clock (\<^verbatim>\<open>Date.now()\<close>) and
  the generator of identifiers (\<^verbatim>\<open>randomUUID()\<close>) are arguments of the operations that
  read them; every operation returns the tracker it leaves behind.
\<close>

record SessionTracker =
  sessions :: "string \<rightharpoonup> Session"
  ttlMs :: int

definition get :: "int \<Rightarrow> string \<Rightarrow> SessionTracker \<Rightarrow> Session option \<times> SessionTracker" where
  "get now conversationKey t =
     (case sessions t conversationKey of
        None \<Rightarrow> (None, t)
      | Some session \<Rightarrow>
          if now - lastUsedAt session > ttlMs t
          then (None, t\<lparr>sessions := (sessions t)(conversationKey := None)\<rparr>)
          else (Some session, t))"

definition create :: "string \<Rightarrow> int \<Rightarrow> string \<Rightarrow> SessionTracker \<Rightarrow> Session \<times> SessionTracker" where
  "create randomUUID now conversationKey t =
     (let session = \<lparr>claudeSessionId = randomUUID, turnCount = 0, lastUsedAt = now,
                      messageCount = 0\<rparr>
      in (session, t\<lparr>sessions := (sessions t)(conversationKey \<mapsto> session)\<rparr>))"

definition touch :: "int \<Rightarrow> string \<Rightarrow> SessionTracker \<Rightarrow> SessionTracker" where
  "touch now conversationKey t =
     (case sessions t conversationKey of
        None \<Rightarrow> t
      | Some session \<Rightarrow>
          t\<lparr>sessions := (sessions t)(conversationKey \<mapsto>
               session\<lparr>lastUsedAt := now, turnCount := turnCount session + 1,
                       messageCount := messageCount session + 1\<rparr>)\<rparr>)"

definition delete :: "string \<Rightarrow> SessionTracker \<Rightarrow> SessionTracker" where
  "delete conversationKey t = t\<lparr>sessions := (sessions t)(conversationKey := None)\<rparr>"

definition cleanup :: "int \<Rightarrow> SessionTracker \<Rightarrow> SessionTracker" where
  "cleanup now t =
     t\<lparr>sessions := (\<lambda>key. case sessions t key of
                          None \<Rightarrow> None
                        | Some session \<Rightarrow>
                            if now - lastUsedAt session > ttlMs t then None else Some session)\<rparr>"

text \<open>The truthiness of a value of type \<^verbatim>\<open>string | null | undefined\<close>: a string that is
  not empty.\<close>

definition truthy :: "string option \<Rightarrow> bool" where
  "truthy v = (case v of None \<Rightarrow> False | Some s \<Rightarrow> s \<noteq> [])"

text \<open>One round of the hash loop of \<^verbatim>\<open>makeKey\<close>:
  \<^verbatim>\<open>hash = ((hash << 5) - hash + fingerprint.charCodeAt(i)) | 0\<close>, on 32-bit integers.\<close>

definition hashStep :: "32 word \<Rightarrow> char \<Rightarrow> 32 word" where
  "hashStep hash c = push_bit 5 hash - hash + of_nat (of_char c)"

text \<open>The text that the callback of \<^verbatim>\<open>map\<close> in \<^verbatim>\<open>makeKey\<close> takes from a content
  (its local \<^verbatim>\<open>text\<close>): the string, or the non-empty texts of the parts of type text,
  joined with spaces.\<close>

definition keyText :: "content \<Rightarrow> string" where
  "keyText c =
     (case c of
        Str s \<Rightarrow> s
      | Parts ps \<Rightarrow>
          join '' ''
            (map (\<lambda>p. the (part_text p))
               (filter (\<lambda>p. part_type p = ''text'' \<and> truthy (part_text p)) ps)))"

definition makeKey :: "string option \<Rightarrow> Message list \<Rightarrow> string" where
  "makeKey conversationId messages =
     (if truthy conversationId then the conversationId
      else
        let fingerprint =
              join ''|''
                (map (\<lambda>m. let text = keyText (content m)
                           in roleString (role m) @ '':'' @ substring0 200 text)
                   (take 3 messages));
            hash = foldl hashStep 0 fingerprint
        in ''conv-'' @ base36 (nat \<bar>sint hash\<bar>))"

section \<open>The command line of the backend (config.ts, claude.ts)\<close>

record BridgeConfig =
  port :: int
  defaultModel :: string
  config_tools :: string
  maxTurns :: int
  timeoutMs :: int
  maxBufferBytes :: int
  sessionTtlMs :: int

record ClaudeArgs =
  model :: string
  opts_systemPrompt :: "string option"
  sessionId :: string
  continueSession :: bool
  stream :: bool
  tools :: string

definition buildArgs :: "BridgeConfig \<Rightarrow> ClaudeArgs \<Rightarrow> string list" where
  "buildArgs config opts =
     [''-p'']
     @ [''--model'', model opts]
     @ (if continueSession opts then [''--resume'', sessionId opts]
        else [''--session-id'', sessionId opts])
     @ (if stream opts
        then [''--output-format'', ''stream-json''] @ [''--verbose''] @ [''--include-partial-messages'']
        else [''--output-format'', ''json''])
     @ [''--allowedTools'', tools opts]
     @ (if truthy (opts_systemPrompt opts)
        then [''--system-prompt'', the (opts_systemPrompt opts)] else [])
     @ [''--max-turns'', String_int (maxTurns config)]"

text \<open>What \<^verbatim>\<open>callClaudeSync\<close> hands to \<^verbatim>\<open>execSync\<close>: the command line, joined with
  spaces, and the \<^verbatim>\<open>input\<close> option, the bytes of standard input.\<close>

record ExecCall =
  commandLine :: string
  input :: string

definition callClaudeSync_exec :: "BridgeConfig \<Rightarrow> string \<Rightarrow> ClaudeArgs \<Rightarrow> ExecCall" where
  "callClaudeSync_exec config promptText opts =
     (let args = buildArgs config (opts\<lparr>stream := False\<rparr>)
      in \<lparr>commandLine = join '' '' (''claude'' # args), input = promptText\<rparr>)"

text \<open>What \<^verbatim>\<open>callClaudeStream\<close> hands to \<^verbatim>\<open>spawn\<close>, and what it writes to the child's
  standard input before closing it.\<close>

record SpawnCall =
  spawnFile :: string
  argv :: "string list"
  stdinWritten :: string

definition callClaudeStream_spawn :: "BridgeConfig \<Rightarrow> string \<Rightarrow> ClaudeArgs \<Rightarrow> SpawnCall" where
  "callClaudeStream_spawn config promptText opts =
     (let args = buildArgs config (opts\<lparr>stream := True\<rparr>)
      in \<lparr>spawnFile = ''claude'', argv = args, stdinWritten = promptText\<rparr>)"

section \<open>Streaming frames (translate.ts)\<close>

text \<open>\<^verbatim>\<open>JSON.stringify\<close> of a string: the quotation mark, the backslash and the control
  characters are escaped.\<close>

definition jsonEscape :: "char \<Rightarrow> string" where
  "jsonEscape c =
     (let n = (of_char c :: nat) in
      if n = 0x22 then [CHR 0x5C, CHR 0x22]
      else if n = 0x5C then [CHR 0x5C, CHR 0x5C]
      else if n = 0x08 then [CHR 0x5C, CHR ''b'']
      else if n = 0x0C then [CHR 0x5C, CHR ''f'']
      else if n = 0x0A then [CHR 0x5C, CHR ''n'']
      else if n = 0x0D then [CHR 0x5C, CHR ''r'']
      else if n = 0x09 then [CHR 0x5C, CHR ''t'']
      else if n < 0x20 then [CHR 0x5C, CHR ''u'', CHR ''0'', CHR ''0'', digitChar (n div 16), digitChar (n mod 16)]
      else [c])"

definition JSON_string :: "string \<Rightarrow> string" where
  "JSON_string s = [CHR 0x22] @ concat (map jsonEscape s) @ [CHR 0x22]"

text \<open>The key of a JSON object, which needs no escaping here, with its colon.\<close>

definition jsonKey :: "string \<Rightarrow> string" where
  "jsonKey k = [CHR 0x22] @ k @ [CHR 0x22] @ '':''"

text \<open>\<^verbatim>\<open>formatSSEChunk\<close> and \<^verbatim>\<open>formatSSEDone\<close>; \<open>now\<close> is the clock they read for
  \<^verbatim>\<open>created\<close>.\<close>

definition formatSSEChunk :: "int \<Rightarrow> string \<Rightarrow> string \<Rightarrow> string \<Rightarrow> string" where
  "formatSSEChunk now ident text modelName =
     ''data: ''
     @ ''{'' @ jsonKey ''id'' @ JSON_string ident
     @ '','' @ jsonKey ''object'' @ JSON_string ''chat.completion.chunk''
     @ '','' @ jsonKey ''created'' @ String_int (now div 1000)
     @ '','' @ jsonKey ''model'' @ JSON_string modelName
     @ '','' @ jsonKey ''choices'' @ ''[{'' @ jsonKey ''index'' @ ''0''
         @ '','' @ jsonKey ''delta'' @ ''{'' @ jsonKey ''content'' @ JSON_string text @ ''}''
         @ '','' @ jsonKey ''finish_reason'' @ ''null'' @ ''}]''
     @ ''}''
     @ ''\<newline>\<newline>''"

definition formatSSEDone :: "int \<Rightarrow> string \<Rightarrow> string \<Rightarrow> string" where
  "formatSSEDone now ident modelName =
     ''data: ''
     @ ''{'' @ jsonKey ''id'' @ JSON_string ident
     @ '','' @ jsonKey ''object'' @ JSON_string ''chat.completion.chunk''
     @ '','' @ jsonKey ''created'' @ String_int (now div 1000)
     @ '','' @ jsonKey ''model'' @ JSON_string modelName
     @ '','' @ jsonKey ''choices'' @ ''[{'' @ jsonKey ''index'' @ ''0''
         @ '','' @ jsonKey ''delta'' @ ''{}''
         @ '','' @ jsonKey ''finish_reason'' @ JSON_string ''stop'' @ ''}]''
     @ ''}''
     @ ''\<newline>\<newline>data: [DONE]\<newline>\<newline>''"

section \<open>The request orchestrator (server.ts)\<close>

record ErrorBody =
  err_message :: string
  err_type :: string
  err_code :: string

text \<open>
  \<^verbatim>\<open>handleError\<close>: the status, the error envelope, and the tracker it leaves behind (the
  module's \<^verbatim>\<open>sessions\<close>). The dash of the second message is U+2014.
\<close>

definition errorText :: "js_error \<Rightarrow> string" where
  "errorText error = (if errMessage error \<noteq> [] then errMessage error else ''Unknown error'')"

text \<open>The conditions of the four \<^verbatim>\<open>if\<close> statements of \<^verbatim>\<open>handleError\<close>, in its order, on
  the text \<open>msg\<close> of the error.\<close>

definition isRateLimited :: "string \<Rightarrow> bool" where
  "isRateLimited msg \<longleftrightarrow>
     str_includes msg ''rate limit'' \<or> str_includes msg ''quota'' \<or>
     str_includes msg ''cooldown'' \<or> str_includes msg ''capacity''"

definition isAuthExpired :: "string \<Rightarrow> bool" where
  "isAuthExpired msg \<longleftrightarrow>
     str_includes msg ''not authorized'' \<or> str_includes msg ''credential'' \<or>
     str_includes msg ''login''"

definition isTimeout :: "js_error \<Rightarrow> string \<Rightarrow> bool" where
  "isTimeout error msg \<longleftrightarrow>
     killed error \<or> str_includes msg ''ETIMEDOUT'' \<or> str_includes msg ''timeout''"

definition isSessionError :: "string \<Rightarrow> bool" where
  "isSessionError msg \<longleftrightarrow>
     str_includes msg ''session'' \<or> str_includes msg ''Session not found''"

definition handleError ::
  "js_error \<Rightarrow> string option \<Rightarrow> SessionTracker \<Rightarrow> (nat \<times> ErrorBody) \<times> SessionTracker" where
  "handleError error convKey tracker =
     (let msg = errorText error in
      if isRateLimited msg
      then ((429, \<lparr>err_message = ''Claude rate limited'', err_type = ''rate_limit_error'',
                    err_code = ''rate_limit_exceeded''\<rparr>), tracker)
      else if isAuthExpired msg
      then ((401, \<lparr>err_message = ''Claude auth expired ''
                       @ [char_of (0xE2 :: nat), char_of (0x80 :: nat), char_of (0x94 :: nat)]
                       @ '' run: claude login'',
                    err_type = ''authentication_error'', err_code = ''invalid_api_key''\<rparr>), tracker)
      else if isTimeout error msg
      then ((504, \<lparr>err_message = ''Claude CLI timeout'', err_type = ''timeout_error'',
                    err_code = ''timeout''\<rparr>), tracker)
      else if isSessionError msg
      then ((502, \<lparr>err_message = ''Claude session expired, retry will create new session'',
                    err_type = ''server_error'', err_code = ''session_expired''\<rparr>),
            (if truthy convKey then delete (the convKey) tracker else tracker))
      else ((502, \<lparr>err_message = ''Claude CLI error: '' @ substring0 200 msg,
                    err_type = ''server_error'', err_code = ''internal_error''\<rparr>), tracker))"

text \<open>The events of the backend's stream (\<^verbatim>\<open>StreamEvent\<close> of claude.ts); an optional
  field is an option, and \<^verbatim>\<open>content_block\<close> is given by its \<^verbatim>\<open>type\<close>.\<close>

record Delta =
  delta_type :: "string option"
  delta_text :: "string option"
  delta_thinking :: "string option"

record InnerEvent =
  inner_type :: string
  content_block :: "string option"
  delta :: "Delta option"

record Usage =
  input_tokens :: int
  output_tokens :: int
  cache_read_input_tokens :: int

record StreamEvent =
  event_type :: string
  event :: "InnerEvent option"
  result :: "string option"
  session_id :: "string option"
  usage :: "Usage option"

text \<open>
  One run of the generator \<^verbatim>\<open>callClaudeStream\<close>, as \<^verbatim>\<open>handleStream\<close> observes it: the
  events it yields, each with the reading of the clock when it is handled, and the way the
  generator ends after them, by returning (the child closed with code 0 or null) or by
  throwing.
\<close>

datatype stream_end = Returned int | Threw js_error

text \<open>The HTTP response: the status of \<^verbatim>\<open>writeHead\<close>, the strings of \<^verbatim>\<open>write\<close> in
  order, and whether \<^verbatim>\<open>end\<close> was called.\<close>

record ServerResponse =
  statusCode :: "nat option"
  written :: "string list"
  writableEnded :: bool

definition res_write :: "string \<Rightarrow> ServerResponse \<Rightarrow> ServerResponse" where
  "res_write chunk res = res\<lparr>written := written res @ [chunk]\<rparr>"

definition res_end :: "ServerResponse \<Rightarrow> ServerResponse" where
  "res_end res = res\<lparr>writableEnded := True\<rparr>"

text \<open>
  The \<^verbatim>\<open>for await\<close> loop of \<^verbatim>\<open>handleStream\<close> with the statements after it, inside the
  \<^verbatim>\<open>try\<close>. The result is \<open>Some e\<close> when \<open>e\<close> was thrown, with the response and the
  tracker as they are then. The two \<^verbatim>\<open>console.log\<close> calls are left out.
\<close>

fun streamLoop ::
  "string \<Rightarrow> string \<Rightarrow> string \<Rightarrow> bool \<Rightarrow> ServerResponse \<Rightarrow> SessionTracker \<Rightarrow>
   (int \<times> StreamEvent) list \<Rightarrow> stream_end \<Rightarrow> js_error option \<times> ServerResponse \<times> SessionTracker" where
  "streamLoop completionId modelName convKey insideThinkingBlock res tracker [] (Returned now) =
     (None, res_end (res_write (formatSSEDone now completionId modelName) res),
      touch now convKey tracker)"
| "streamLoop completionId modelName convKey insideThinkingBlock res tracker [] (Threw e) =
     (Some e, res, tracker)"
| "streamLoop completionId modelName convKey insideThinkingBlock res tracker ((now, ev) # rest) fin =
     (if event_type ev = ''result''
      then (None, res_end (res_write (formatSSEDone now completionId modelName) res),
            touch now convKey tracker)
      else if event_type ev = ''stream_event'' \<and> event ev \<noteq> None
      then (let inner = the (event ev) in
            if inner_type inner = ''content_block_start'' \<and> content_block inner = Some ''thinking''
            then streamLoop completionId modelName convKey True res tracker rest fin
            else if inner_type inner = ''content_block_stop'' \<and> insideThinkingBlock
            then streamLoop completionId modelName convKey False res tracker rest fin
            else if insideThinkingBlock
            then streamLoop completionId modelName convKey insideThinkingBlock res tracker rest fin
            else if (case delta inner of None \<Rightarrow> False | Some d \<Rightarrow> delta_type d = Some ''thinking_delta'')
            then streamLoop completionId modelName convKey insideThinkingBlock res tracker rest fin
            else if (case delta inner of None \<Rightarrow> False | Some d \<Rightarrow> truthy (delta_text d))
            then streamLoop completionId modelName convKey insideThinkingBlock
                   (res_write (formatSSEChunk now completionId (the (delta_text (the (delta inner)))) modelName) res)
                   tracker rest fin
            else streamLoop completionId modelName convKey insideThinkingBlock res tracker rest fin)
      else streamLoop completionId modelName convKey insideThinkingBlock res tracker rest fin)"

text \<open>The error frame of the \<^verbatim>\<open>catch\<close> block:
  \<^verbatim>\<open>`data: ${JSON.stringify({ error: body.error })}\n\n`\<close>.\<close>

definition errorFrame :: "ErrorBody \<Rightarrow> string" where
  "errorFrame body =
     ''data: ''
     @ ''{'' @ jsonKey ''error'' @ ''{'' @ jsonKey ''message'' @ JSON_string (err_message body)
         @ '','' @ jsonKey ''type'' @ JSON_string (err_type body)
         @ '','' @ jsonKey ''code'' @ JSON_string (err_code body) @ ''}''
     @ ''}''
     @ ''\<newline>\<newline>''"

text \<open>\<^verbatim>\<open>handleStream\<close>: \<open>start\<close> is the clock when the completion identifier is made,
  \<open>res\<close> the response before \<^verbatim>\<open>writeHead\<close>.\<close>

definition handleStream ::
  "int \<Rightarrow> (int \<times> StreamEvent) list \<Rightarrow> stream_end \<Rightarrow> string \<Rightarrow> string \<Rightarrow> ServerResponse \<Rightarrow>
   SessionTracker \<Rightarrow> ServerResponse \<times> SessionTracker" where
  "handleStream start events fin modelName convKey res tracker =
     (let res1 = res\<lparr>statusCode := Some 200\<rparr>;
          completionId = ''chatcmpl-'' @ String_int start
      in case streamLoop completionId modelName convKey False res1 tracker events fin of
           (None, res2, tracker2) \<Rightarrow> (res2, tracker2)
         | (Some error, res2, tracker2) \<Rightarrow>
             (let ((status, body), tracker3) = handleError error (Some convKey) tracker2
              in if \<not> writableEnded res2
                 then (res_end (res_write ''data: [DONE]\<newline>\<newline>'' (res_write (errorFrame body) res2)),
                       tracker3)
                 else (res2, tracker3)))"

section \<open>Notions of the properties below\<close>

text \<open>The synthetic events of the streaming scenario: the start of a content block of a
  given kind, the stop of a block, a delta with a tag and a text fragment, and the terminal
  result event.\<close>

definition streamEvent :: "InnerEvent \<Rightarrow> StreamEvent" where
  "streamEvent inner =
     \<lparr>event_type = ''stream_event'', event = Some inner, result = None, session_id = None,
      usage = None\<rparr>"

definition blockStart :: "string \<Rightarrow> StreamEvent" where
  "blockStart kind =
     streamEvent \<lparr>inner_type = ''content_block_start'', content_block = Some kind, delta = None\<rparr>"

definition blockStop :: StreamEvent where
  "blockStop =
     streamEvent \<lparr>inner_type = ''content_block_stop'', content_block = None, delta = None\<rparr>"

definition deltaEvent :: "string \<Rightarrow> string \<Rightarrow> StreamEvent" where
  "deltaEvent tag fragment =
     streamEvent \<lparr>inner_type = ''content_block_delta'', content_block = None,
                  delta = Some \<lparr>delta_type = Some tag, delta_text = Some fragment,
                                delta_thinking = None\<rparr>\<rparr>"

definition resultEvent :: StreamEvent where
  "resultEvent =
     \<lparr>event_type = ''result'', event = None, result = Some ''done'', session_id = None,
      usage = None\<rparr>"

text \<open>A terminal result event; a sub-event that stops a block; a delta sub-event tagged as a
  thinking delta.\<close>

definition isResult :: "StreamEvent \<Rightarrow> bool" where
  "isResult ev \<longleftrightarrow> event_type ev = ''result''"

definition isBlockStop :: "StreamEvent \<Rightarrow> bool" where
  "isBlockStop ev \<longleftrightarrow>
     event_type ev = ''stream_event'' \<and>
     (case event ev of None \<Rightarrow> False | Some inner \<Rightarrow> inner_type inner = ''content_block_stop'')"

definition isThinkingDelta :: "StreamEvent \<Rightarrow> bool" where
  "isThinkingDelta ev \<longleftrightarrow>
     event_type ev = ''stream_event'' \<and>
     (case event ev of
        None \<Rightarrow> False
      | Some inner \<Rightarrow>
          inner_type inner = ''content_block_delta'' \<and>
          (case delta inner of None \<Rightarrow> False | Some d \<Rightarrow> delta_type d = Some ''thinking_delta''))"

text \<open>The clock at the first terminal result event of a run, if it has one.\<close>

definition firstResult :: "(int \<times> StreamEvent) list \<Rightarrow> int option" where
  "firstResult events = map_option fst (find (\<lambda>(now, ev). isResult ev) events)"

text \<open>The last frame of every stream.\<close>

definition doneMarker :: string where
  "doneMarker = ''data: [DONE]\<newline>\<newline>''"

text \<open>A response on which nothing was written yet.\<close>

definition freshResponse :: ServerResponse where
  "freshResponse = \<lparr>statusCode = None, written = [], writableEnded = False\<rparr>"

text \<open>The texts of the system-role messages of a list, in its order; the label of a role in the
  rendered prompt; and the turns of the messages that are not system messages, each with
  its label, in the order of the list.\<close>

fun systemTexts :: "Message list \<Rightarrow> string list" where
  "systemTexts [] = []"
| "systemTexts (m # ms) =
     (if role m = System then extractText (content m) # systemTexts ms else systemTexts ms)"

fun roleLabel :: "role \<Rightarrow> string" where
  "roleLabel User = ''User: ''"
| "roleLabel Assistant = ''Assistant: ''"
| "roleLabel System = []"

fun labelledTurns :: "Message list \<Rightarrow> string list" where
  "labelledTurns [] = []"
| "labelledTurns (m # ms) =
     (if role m = System then labelledTurns ms
      else (roleLabel (role m) @ extractText (content m)) # labelledTurns ms)"

text \<open>An error that \<^verbatim>\<open>handleError\<close> classifies as a session error: its text passes the
  three earlier tests of the chain and meets the fourth.\<close>

definition isSessionFailure :: "js_error \<Rightarrow> bool" where
  "isSessionFailure error \<longleftrightarrow>
     \<not> isRateLimited (errorText error) \<and> \<not> isAuthExpired (errorText error) \<and>
     \<not> isTimeout error (errorText error) \<and> isSessionError (errorText error)"

text \<open>What the fingerprint of \<^verbatim>\<open>makeKey\<close> reads of a message list: the roles and the
  first 200 characters of the texts of its first three messages.\<close>

definition keySignature :: "Message list \<Rightarrow> (role \<times> string) list" where
  "keySignature messages = map (\<lambda>m. (role m, take 200 (keyText (content m)))) (take 3 messages)"

text \<open>A text of 200 characters, for examples of the truncation.\<close>

definition longText :: string where
  "longText = replicate 200 CHR ''a''"

text \<open>What the loop of \<^verbatim>\<open>handleStream\<close> leaves behind, given the text frames it forwarded,
  the clock at the first result event if there is one, and the way the generator ends.\<close>

definition streamOutcome ::
  "string \<Rightarrow> string \<Rightarrow> string \<Rightarrow> ServerResponse \<Rightarrow> SessionTracker \<Rightarrow> string list \<Rightarrow>
   int option \<Rightarrow> stream_end \<Rightarrow> js_error option \<times> ServerResponse \<times> SessionTracker" where
  "streamOutcome cid m k res tr chunks first fin =
     (case first of
        Some now \<Rightarrow>
          (None, res\<lparr>written := written res @ chunks @ [formatSSEDone now cid m], writableEnded := True\<rparr>,
           touch now k tr)
      | None \<Rightarrow>
          (case fin of
             Returned now \<Rightarrow>
               (None, res\<lparr>written := written res @ chunks @ [formatSSEDone now cid m],
                          writableEnded := True\<rparr>,
                touch now k tr)
           | Threw e \<Rightarrow> (Some e, res\<lparr>written := written res @ chunks\<rparr>, tr)))"

text \<open>A tracker that holds one fresh session, for the examples below.\<close>

definition exampleTracker :: SessionTracker where
  "exampleTracker =
     \<lparr>sessions = [''conv-1'' \<mapsto> \<lparr>claudeSessionId = ''uuid-1'', turnCount = 0,
                                   lastUsedAt = 1700000000000, messageCount = 0\<rparr>],
      ttlMs = 1800000\<rparr>"

text \<open>The three frames of the examples below: the incremental frame of the text X, the
  terminal frame, and the error frame of a backend that exits with code 1.\<close>

definition exampleTextFrame :: string where
  \<open>exampleTextFrame =
     ''data: {"id":"chatcmpl-1700000000000","object":"chat.completion.chunk","created":1700000000,"model":"claude-sonnet","choices":[{"index":0,"delta":{"content":"X"},"finish_reason":null}]}\<newline>\<newline>''\<close>

definition exampleDoneFrame :: string where
  \<open>exampleDoneFrame =
     ''data: {"id":"chatcmpl-1700000000000","object":"chat.completion.chunk","created":1700000000,"model":"claude-sonnet","choices":[{"index":0,"delta":{},"finish_reason":"stop"}]}\<newline>\<newline>data: [DONE]\<newline>\<newline>''\<close>

definition exampleErrorFrame :: string where
  \<open>exampleErrorFrame =
     ''data: {"error":{"message":"Claude CLI error: Claude CLI exited with code 1","type":"server_error","code":"internal_error"}}\<newline>\<newline>''\<close>

section \<open>Strings and lists: auxiliary facts\<close>

lemma str_includes_sublist: "str_includes s t \<longleftrightarrow> sublist t s"
  by (induction s) (auto simp: sublist_Cons_right)



lemma length_longText: "length longText = 200"
  by (simp add: longText_def)

lemma sublist_nonempty: "sublist t s \<Longrightarrow> t \<noteq> [] \<Longrightarrow> s \<noteq> []"
  by (cases s) auto

section \<open>What the frames hold and what touching does\<close>

text \<open>The decimal digits, and the numbers of the examples below as JavaScript prints them.\<close>

lemma digitChar_values:
  "digitChar 0 = CHR ''0''" "digitChar (Suc 0) = CHR ''1''" "digitChar 2 = CHR ''2''"
  "digitChar 3 = CHR ''3''" "digitChar 4 = CHR ''4''" "digitChar 5 = CHR ''5''"
  "digitChar 6 = CHR ''6''" "digitChar 7 = CHR ''7''" "digitChar 8 = CHR ''8''"
  "digitChar 9 = CHR ''9''"
  by code_simp+

lemma String_int_seconds: "String_int 1700000000 = ''1700000000''"
  by (simp add: String_int_def decimal.simps digitChar_values)

lemma String_int_millis: "String_int 1700000000000 = ''1700000000000''"
  by (simp add: String_int_def decimal.simps digitChar_values)

text \<open>A string with no character to escape is rendered between quotation marks as it is.\<close>

lemma JSON_string_plain:
  "\<forall>c \<in> set x. jsonEscape c = [c] \<Longrightarrow> JSON_string x = [CHR 0x22] @ x @ [CHR 0x22]"
proof -
  assume "\<forall>c \<in> set x. jsonEscape c = [c]"
  then have "concat (map jsonEscape x) = x"
    by (induction x) simp_all
  then show ?thesis
    by (simp add: JSON_string_def)
qed

text \<open>An incremental frame holds its text as the JSON string under the key
  \<^verbatim>\<open>content\<close>; it does not end with the terminal marker, and the terminal frame does; an
  error frame holds the message, the type and the code of its envelope.\<close>

lemma formatSSEChunk_carries:
  "sublist (jsonKey ''content'' @ JSON_string x) (formatSSEChunk now ident x m)"
  unfolding sublist_def formatSSEChunk_def
  by (rule exI [of _ "''data: '' @ ''{'' @ jsonKey ''id'' @ JSON_string ident
     @ '','' @ jsonKey ''object'' @ JSON_string ''chat.completion.chunk''
     @ '','' @ jsonKey ''created'' @ String_int (now div 1000)
     @ '','' @ jsonKey ''model'' @ JSON_string m
     @ '','' @ jsonKey ''choices'' @ ''[{'' @ jsonKey ''index'' @ ''0''
     @ '','' @ jsonKey ''delta'' @ ''{''"],
      rule exI [of _ "''}'' @ '','' @ jsonKey ''finish_reason'' @ ''null'' @ ''}]'' @ ''}''
     @ ''\<newline>\<newline>''"]) simp

lemma formatSSEChunk_carries_plain:
  assumes "\<forall>c \<in> set x. jsonEscape c = [c]"
  shows "sublist ([CHR 0x22] @ x @ [CHR 0x22]) (formatSSEChunk now ident x m)"
proof -
  have "sublist (JSON_string x) (jsonKey ''content'' @ JSON_string x)"
    by (rule sublist_append_leftI)
  with formatSSEChunk_carries [of x now ident m]
  have "sublist (JSON_string x) (formatSSEChunk now ident x m)"
    by (rule sublist_order.order.trans [rotated])
  then show ?thesis
    by (simp only: JSON_string_plain [OF assms])
qed

lemma formatSSEDone_suffix: "suffix doneMarker (formatSSEDone now cid m)"
  by (simp add: formatSSEDone_def doneMarker_def suffix_appendI suffix_Cons)

lemma formatSSEChunk_not_done: "\<not> suffix doneMarker (formatSSEChunk now ident x m)"
  by (simp add: suffix_to_prefix formatSSEChunk_def doneMarker_def)

lemma formatSSEChunk_not_formatSSEDone: "formatSSEChunk now ident x m \<noteq> formatSSEDone now' ident' m'"
  using formatSSEDone_suffix [of now' ident' m'] formatSSEChunk_not_done [of now ident x m]
  by auto

lemma errorFrame_carries:
  "sublist (jsonKey ''message'' @ JSON_string (err_message body)) (errorFrame body) \<and>
   sublist (jsonKey ''type'' @ JSON_string (err_type body)) (errorFrame body) \<and>
   sublist (jsonKey ''code'' @ JSON_string (err_code body)) (errorFrame body)"
proof (intro conjI)
  show "sublist (jsonKey ''message'' @ JSON_string (err_message body)) (errorFrame body)"
    unfolding sublist_def errorFrame_def
    by (rule exI [of _ "''data: '' @ ''{'' @ jsonKey ''error'' @ ''{''"],
        rule exI [of _ "'','' @ jsonKey ''type'' @ JSON_string (err_type body)
         @ '','' @ jsonKey ''code'' @ JSON_string (err_code body) @ ''}'' @ ''}'' @ ''\<newline>\<newline>''"]) simp
  show "sublist (jsonKey ''type'' @ JSON_string (err_type body)) (errorFrame body)"
    unfolding sublist_def errorFrame_def
    by (rule exI [of _ "''data: '' @ ''{'' @ jsonKey ''error'' @ ''{'' @ jsonKey ''message''
         @ JSON_string (err_message body) @ '',''"],
        rule exI [of _ "'','' @ jsonKey ''code'' @ JSON_string (err_code body) @ ''}'' @ ''}''
         @ ''\<newline>\<newline>''"]) simp
  show "sublist (jsonKey ''code'' @ JSON_string (err_code body)) (errorFrame body)"
    unfolding sublist_def errorFrame_def
    by (rule exI [of _ "''data: '' @ ''{'' @ jsonKey ''error'' @ ''{'' @ jsonKey ''message''
         @ JSON_string (err_message body) @ '','' @ jsonKey ''type'' @ JSON_string (err_type body) @ '',''"],
        rule exI [of _ "''}'' @ ''}'' @ ''\<newline>\<newline>''"]) simp
qed

lemma errorFrame_not_done: "\<not> suffix doneMarker (errorFrame body)"
  by (simp add: suffix_to_prefix errorFrame_def doneMarker_def)

text \<open>Touching a session that is there sets its last use to the clock and counts one more
  turn and one more message; the other sessions stay as they are.\<close>

lemma touch_present:
  "sessions t k = Some s \<Longrightarrow>
   sessions (touch now k t) k =
     Some (s\<lparr>lastUsedAt := now, turnCount := turnCount s + 1, messageCount := messageCount s + 1\<rparr>)"
  by (simp add: touch_def)

lemma touch_other: "k' \<noteq> k \<Longrightarrow> sessions (touch now k t) k' = sessions t k'"
  by (simp add: touch_def split: option.splits)

lemma touch_absent: "sessions t k = None \<Longrightarrow> touch now k t = t"
  by (simp add: touch_def)

lemma formatSSEChunk_not_errorFrame: "formatSSEChunk now cid x m \<noteq> errorFrame body"
  by (simp add: formatSSEChunk_def errorFrame_def jsonKey_def)

text \<open>The frames of the examples below, letter for letter.\<close>

lemma chunk_X_literal:
  "now div 1000 = 1700000000 \<Longrightarrow>
   formatSSEChunk now ''chatcmpl-1700000000000'' ''X'' ''claude-sonnet'' = exampleTextFrame"
  by (simp add: formatSSEChunk_def jsonKey_def JSON_string_def jsonEscape_def Let_def
        String_int_seconds exampleTextFrame_def)

lemma done_literal:
  "now div 1000 = 1700000000 \<Longrightarrow>
   formatSSEDone now ''chatcmpl-1700000000000'' ''claude-sonnet'' = exampleDoneFrame"
  by (simp add: formatSSEDone_def jsonKey_def JSON_string_def jsonEscape_def Let_def
        String_int_seconds exampleDoneFrame_def)

lemma completionId_literal: "''chatcmpl-'' @ String_int 1700000000000 = ''chatcmpl-1700000000000''"
  by (simp add: String_int_millis)

lemma handleError_exit_code:
  "handleError \<lparr>errMessage = ''Claude CLI exited with code 1'', killed = False\<rparr> convKey tracker =
     ((502, \<lparr>err_message = ''Claude CLI error: Claude CLI exited with code 1'',
             err_type = ''server_error'', err_code = ''internal_error''\<rparr>), tracker)"
proof -
  let ?e = "\<lparr>errMessage = ''Claude CLI exited with code 1'', killed = False\<rparr>"
  have t: "errorText ?e = ''Claude CLI exited with code 1''"
    by (simp add: errorText_def)
  have c: "\<not> isRateLimited ''Claude CLI exited with code 1''"
    "\<not> isAuthExpired ''Claude CLI exited with code 1''"
    "\<not> isTimeout ?e ''Claude CLI exited with code 1''"
    "\<not> isSessionError ''Claude CLI exited with code 1''"
    by code_simp+
  show ?thesis
    by (simp add: handleError_def t c substring0_def)
qed

lemma errorFrame_literal:
  "errorFrame \<lparr>err_message = ''Claude CLI error: Claude CLI exited with code 1'',
                err_type = ''server_error'', err_code = ''internal_error''\<rparr> = exampleErrorFrame"
  by (simp add: errorFrame_def jsonKey_def JSON_string_def jsonEscape_def Let_def
        exampleErrorFrame_def)

section \<open>The format translator\<close>



lemma systemTexts_filter:
  "map (\<lambda>m. extractText (content m)) (filter (\<lambda>m. role m = System) ms) = systemTexts ms"
  by (induction ms) auto

lemma labelledTurns_filter:
  "map (\<lambda>m. let text = extractText (content m)
            in if role m = User then ''User: '' @ text
               else if role m = Assistant then ''Assistant: '' @ text
               else text)
     (filter (\<lambda>m. role m \<noteq> System) ms) = labelledTurns ms"
proof (induction ms)
  case Nil
  then show ?case by simp
next
  case (Cons m ms)
  then show ?case by (cases "role m") (simp_all add: Let_def)
qed

text \<open>
  C4. \<^verbatim>\<open>translateFirstTurn\<close> returns as system prompt the texts of exactly the system-role
  messages, in their order, joined with newlines, and none when there is no such message;
  as prompt the other messages in their order, each with its role label, joined with a blank
  line; and \<^verbatim>\<open>isFirstTurn\<close> true. The result is a function of the list, which is left
  as it was.
\<close>

theorem translateFirstTurn_system_and_turns:
  "translateFirstTurn messages =
     \<lparr>prompt = join ''\<newline>\<newline>'' (labelledTurns messages),
      systemPrompt = (if \<exists>m \<in> set messages. role m = System
                      then Some (join ''\<newline>'' (systemTexts messages)) else None),
      isFirstTurn = True\<rparr>"
proof -
  have "(filter (\<lambda>m. role m = System) messages \<noteq> []) = (\<exists>m \<in> set messages. role m = System)"
    by (simp add: filter_empty_conv)
  then show ?thesis
    unfolding translateFirstTurn_def Let_def labelledTurns_filter [unfolded Let_def] systemTexts_filter
    by simp
qed

theorem translateFirstTurn_witness:
  "translateFirstTurn
     [\<lparr>role = System, content = Str ''be brief''\<rparr>, \<lparr>role = User, content = Str ''hi''\<rparr>,
      \<lparr>role = Assistant, content = Str ''hello''\<rparr>,
      \<lparr>role = System, content = Parts [\<lparr>part_type = ''text'', part_text = Some ''no jokes''\<rparr>,
                                       \<lparr>part_type = ''image_url'', part_text = None\<rparr>]\<rparr>,
      \<lparr>role = User, content = Str ''why?''\<rparr>]
   = \<lparr>prompt = ''User: hi\<newline>\<newline>Assistant: hello\<newline>\<newline>User: why?'',
      systemPrompt = Some ''be brief\<newline>no jokes'', isFirstTurn = True\<rparr>"
  using translateFirstTurn_system_and_turns
    [of "[\<lparr>role = System, content = Str ''be brief''\<rparr>, \<lparr>role = User, content = Str ''hi''\<rparr>,
      \<lparr>role = Assistant, content = Str ''hello''\<rparr>,
      \<lparr>role = System, content = Parts [\<lparr>part_type = ''text'', part_text = Some ''no jokes''\<rparr>,
                                       \<lparr>part_type = ''image_url'', part_text = None\<rparr>]\<rparr>,
      \<lparr>role = User, content = Str ''why?''\<rparr>]"]
  by (simp add: extractText_def)

text \<open>The substring test of the source, stated with the library's contiguous sublists.\<close>

lemma mapModel_sublist:
  "mapModel requestModel fallback =
     (case requestModel of
        None \<Rightarrow> fallback
      | Some m \<Rightarrow>
          if sublist ''haiku'' (toLowerCase m) then ''haiku''
          else if sublist ''opus'' (toLowerCase m) then ''opus''
          else if sublist ''sonnet'' (toLowerCase m) then ''sonnet''
          else fallback)"
  by (cases requestModel) (auto simp: mapModel_def Let_def str_includes_sublist toLowerCase_def)

text \<open>
  C9, as amended. The mapping is case-insensitive and substring-based over the vocabulary
  haiku, opus, sonnet, tried in this order: an input whose lowercased form contains haiku
  resolves to haiku; one that contains opus and not haiku, to opus; one that contains sonnet
  and neither of the two, to sonnet; an input that contains none of them, or an absent one,
  to the fallback. Inputs that differ only in the case of their letters resolve alike.
\<close>

theorem mapModel_precedence:
  "(sublist ''haiku'' (toLowerCase m) \<longrightarrow> mapModel (Some m) fallback = ''haiku'') \<and>
   (sublist ''opus'' (toLowerCase m) \<and> \<not> sublist ''haiku'' (toLowerCase m) \<longrightarrow>
      mapModel (Some m) fallback = ''opus'') \<and>
   (sublist ''sonnet'' (toLowerCase m) \<and> \<not> sublist ''haiku'' (toLowerCase m) \<and>
    \<not> sublist ''opus'' (toLowerCase m) \<longrightarrow> mapModel (Some m) fallback = ''sonnet'') \<and>
   (\<not> sublist ''haiku'' (toLowerCase m) \<and> \<not> sublist ''opus'' (toLowerCase m) \<and>
    \<not> sublist ''sonnet'' (toLowerCase m) \<longrightarrow> mapModel (Some m) fallback = fallback) \<and>
   mapModel None fallback = fallback \<and>
   (toLowerCase m = toLowerCase m' \<longrightarrow> mapModel (Some m) fallback = mapModel (Some m') fallback)"
  by (simp add: mapModel_sublist)

theorem mapModel_witness:
  "sublist ''opus'' (toLowerCase ''Claude-Opus-Extended'') \<and>
   \<not> sublist ''haiku'' (toLowerCase ''Claude-Opus-Extended'') \<and>
   mapModel (Some ''Claude-Opus-Extended'') ''sonnet'' = ''opus'' \<and>
   toLowerCase ''Claude-Opus-Extended'' = toLowerCase ''claude-opus-extended'' \<and>
   mapModel (Some ''claude-opus-extended'') ''sonnet'' = ''opus'' \<and>
   mapModel None ''sonnet'' = ''sonnet''"
proof -
  have h1: "sublist ''opus'' (toLowerCase ''Claude-Opus-Extended'')"
    and h2: "\<not> sublist ''haiku'' (toLowerCase ''Claude-Opus-Extended'')"
    and h3: "toLowerCase ''Claude-Opus-Extended'' = toLowerCase ''claude-opus-extended''"
    by code_simp+
  note inst = mapModel_precedence [of "''Claude-Opus-Extended''" "''sonnet''" "''claude-opus-extended''"]
  from inst h1 h2 have a: "mapModel (Some ''Claude-Opus-Extended'') ''sonnet'' = ''opus''"
    by blast
  from inst h3 have b: "mapModel (Some ''Claude-Opus-Extended'') ''sonnet''
      = mapModel (Some ''claude-opus-extended'') ''sonnet''"
    by blast
  from inst have c: "mapModel None ''sonnet'' = ''sonnet''"
    by blast
  from h1 h2 h3 a b c show ?thesis
    by (intro conjI) (assumption | simp only:)+
qed

text \<open>An input with two tokens resolves to the one tried first: it contains opus and does not
  resolve to opus.\<close>

theorem mapModel_two_tokens_counterexample:
  "sublist ''opus'' (toLowerCase ''opus-haiku'') \<and> mapModel (Some ''opus-haiku'') ''sonnet'' \<noteq> ''opus''"
  by code_simp

section \<open>The classification of failures\<close>

text \<open>
  C6. A failure whose error text contains one of the phrases rate limit, quota, cooldown or
  capacity is answered with status 429 and an envelope of type \<^verbatim>\<open>rate_limit_error\<close> and
  code \<^verbatim>\<open>rate_limit_exceeded\<close>; the tracker is left as it is.
\<close>

theorem handleError_rate_limited:
  assumes "phrase \<in> {''rate limit'', ''quota'', ''cooldown'', ''capacity''}"
    and "sublist phrase (errMessage error)"
  shows "handleError error convKey tracker =
           ((429, \<lparr>err_message = ''Claude rate limited'', err_type = ''rate_limit_error'',
                   err_code = ''rate_limit_exceeded''\<rparr>), tracker)"
proof -
  from assms have "errMessage error \<noteq> []"
    by (auto dest: sublist_nonempty)
  then have "errorText error = errMessage error"
    by (simp add: errorText_def)
  with assms have "isRateLimited (errorText error)"
    by (auto simp: isRateLimited_def str_includes_sublist)
  then show ?thesis
    by (simp add: handleError_def)
qed

theorem handleError_rate_limited_witness:
  "''quota'' \<in> {''rate limit'', ''quota'', ''cooldown'', ''capacity''} \<and>
   sublist ''quota'' (errMessage \<lparr>errMessage = ''quota exceeded'', killed = False\<rparr>) \<and>
   handleError \<lparr>errMessage = ''quota exceeded'', killed = False\<rparr> (Some ''conv-1'')
       \<lparr>sessions = Map.empty, ttlMs = 1800000\<rparr> =
     ((429, \<lparr>err_message = ''Claude rate limited'', err_type = ''rate_limit_error'',
             err_code = ''rate_limit_exceeded''\<rparr>), \<lparr>sessions = Map.empty, ttlMs = 1800000\<rparr>)"
proof -
  have m: "''quota'' \<in> {''rate limit'', ''quota'', ''cooldown'', ''capacity''}"
    by simp
  have s: "sublist ''quota'' (errMessage \<lparr>errMessage = ''quota exceeded'', killed = False\<rparr>)"
    by (simp add: str_includes_sublist [symmetric])
  from m s handleError_rate_limited [OF m s] show ?thesis
    by simp
qed

text \<open>
  C7. For a failure classified as a session error, \<^verbatim>\<open>handleError\<close>, called with the
  conversation key, deletes the entry of that key from the tracker and returns status 502
  with the code \<^verbatim>\<open>session_expired\<close>; for every other failure it leaves the tracker as it
  is and returns another code.
\<close>

theorem handleError_session_expired:
  assumes "convKey \<noteq> []"
  shows "(isSessionFailure error \<longrightarrow>
            handleError error (Some convKey) tracker =
              ((502, \<lparr>err_message = ''Claude session expired, retry will create new session'',
                      err_type = ''server_error'', err_code = ''session_expired''\<rparr>),
               delete convKey tracker) \<and>
            sessions (delete convKey tracker) convKey = None) \<and>
         (\<not> isSessionFailure error \<longrightarrow>
            snd (handleError error (Some convKey) tracker) = tracker \<and>
            err_code (snd (fst (handleError error (Some convKey) tracker))) \<noteq> ''session_expired'')"
  using assms
  by (simp add: handleError_def isSessionFailure_def Let_def truthy_def delete_def)

theorem handleError_session_expired_witness:
  "''conv-1'' \<noteq> [] \<and>
   isSessionFailure \<lparr>errMessage = ''No conversation found with session ID: 123'', killed = False\<rparr> \<and>
   handleError \<lparr>errMessage = ''No conversation found with session ID: 123'', killed = False\<rparr>
       (Some ''conv-1'')
       \<lparr>sessions = [''conv-1'' \<mapsto> \<lparr>claudeSessionId = ''123'', turnCount = 2, lastUsedAt = 5,
                                     messageCount = 2\<rparr>], ttlMs = 1800000\<rparr> =
     ((502, \<lparr>err_message = ''Claude session expired, retry will create new session'',
             err_type = ''server_error'', err_code = ''session_expired''\<rparr>),
      delete ''conv-1''
        \<lparr>sessions = [''conv-1'' \<mapsto> \<lparr>claudeSessionId = ''123'', turnCount = 2, lastUsedAt = 5,
                                      messageCount = 2\<rparr>], ttlMs = 1800000\<rparr>) \<and>
   sessions (delete ''conv-1''
        \<lparr>sessions = [''conv-1'' \<mapsto> \<lparr>claudeSessionId = ''123'', turnCount = 2, lastUsedAt = 5,
                                      messageCount = 2\<rparr>], ttlMs = 1800000\<rparr>) ''conv-1'' = None \<and>
   \<not> isSessionFailure \<lparr>errMessage = ''session request timeout'', killed = False\<rparr> \<and>
   snd (handleError \<lparr>errMessage = ''session request timeout'', killed = False\<rparr> (Some ''conv-1'')
       \<lparr>sessions = [''conv-1'' \<mapsto> \<lparr>claudeSessionId = ''123'', turnCount = 2, lastUsedAt = 5,
                                     messageCount = 2\<rparr>], ttlMs = 1800000\<rparr>) =
     \<lparr>sessions = [''conv-1'' \<mapsto> \<lparr>claudeSessionId = ''123'', turnCount = 2, lastUsedAt = 5,
                                   messageCount = 2\<rparr>], ttlMs = 1800000\<rparr>"
proof -
  have k: "''conv-1'' \<noteq> []" by simp
  have a: "isSessionFailure \<lparr>errMessage = ''No conversation found with session ID: 123'', killed = False\<rparr>"
    by code_simp
  have b: "\<not> isSessionFailure \<lparr>errMessage = ''session request timeout'', killed = False\<rparr>"
    by code_simp
  from k a b
    handleError_session_expired [OF k,
      of "\<lparr>errMessage = ''No conversation found with session ID: 123'', killed = False\<rparr>"]
    handleError_session_expired [OF k,
      of "\<lparr>errMessage = ''session request timeout'', killed = False\<rparr>"]
  show ?thesis by blast
qed

section \<open>The session tracker\<close>

text \<open>
  C2. \<^verbatim>\<open>get\<close> returns the stored session when there is one and its age is at most the
  TTL, leaving the tracker as it is; when the age exceeds the TTL it deletes the entry and
  returns nothing; so a session that it returns is never older than the TTL, whether or not
  the periodic cleanup has run.
\<close>

theorem get_lazy_expiry:
  "(sessions t k = None \<longrightarrow> get now k t = (None, t)) \<and>
   (\<forall>s. sessions t k = Some s \<and> now - lastUsedAt s \<le> ttlMs t \<longrightarrow> get now k t = (Some s, t)) \<and>
   (\<forall>s. sessions t k = Some s \<and> now - lastUsedAt s > ttlMs t \<longrightarrow>
        get now k t = (None, delete k t) \<and> sessions (delete k t) k = None) \<and>
   (\<forall>s t'. get now k t = (Some s, t') \<longrightarrow>
        sessions t k = Some s \<and> now - lastUsedAt s \<le> ttlMs t \<and> t' = t)"
  by (auto simp: get_def delete_def split: option.splits if_splits)

theorem get_lazy_expiry_witness:
  "get 1000 ''k'' (snd (create ''uuid-1'' 1000 ''k'' \<lparr>sessions = Map.empty, ttlMs = 1800000\<rparr>)) =
     (Some \<lparr>claudeSessionId = ''uuid-1'', turnCount = 0, lastUsedAt = 1000, messageCount = 0\<rparr>,
      snd (create ''uuid-1'' 1000 ''k'' \<lparr>sessions = Map.empty, ttlMs = 1800000\<rparr>)) \<and>
   get 1801000 ''k'' (snd (create ''uuid-1'' 1000 ''k'' \<lparr>sessions = Map.empty, ttlMs = 1800000\<rparr>)) =
     (Some \<lparr>claudeSessionId = ''uuid-1'', turnCount = 0, lastUsedAt = 1000, messageCount = 0\<rparr>,
      snd (create ''uuid-1'' 1000 ''k'' \<lparr>sessions = Map.empty, ttlMs = 1800000\<rparr>)) \<and>
   fst (get 1801001 ''k'' (snd (create ''uuid-1'' 1000 ''k'' \<lparr>sessions = Map.empty, ttlMs = 1800000\<rparr>)))
     = None \<and>
   sessions (snd (get 1801001 ''k''
       (snd (create ''uuid-1'' 1000 ''k'' \<lparr>sessions = Map.empty, ttlMs = 1800000\<rparr>)))) ''k'' = None \<and>
   get 1000 ''other'' (snd (create ''uuid-1'' 1000 ''k'' \<lparr>sessions = Map.empty, ttlMs = 1800000\<rparr>)) =
     (None, snd (create ''uuid-1'' 1000 ''k'' \<lparr>sessions = Map.empty, ttlMs = 1800000\<rparr>))"
proof -
  define t where "t = snd (create ''uuid-1'' 1000 ''k'' \<lparr>sessions = Map.empty, ttlMs = 1800000\<rparr>)"
  define s where "s = \<lparr>claudeSessionId = ''uuid-1'', turnCount = 0, lastUsedAt = 1000, messageCount = 0\<rparr>"
  have st: "sessions t ''k'' = Some s" and so: "sessions t ''other'' = None"
    and ttl: "ttlMs t = 1800000" and lu: "lastUsedAt s = 1000"
    by (simp_all add: t_def s_def create_def Let_def)
  have fresh: "(1000::int) - lastUsedAt s \<le> ttlMs t" and edge: "(1801000::int) - lastUsedAt s \<le> ttlMs t"
    and stale: "(1801001::int) - lastUsedAt s > ttlMs t"
    by (simp_all add: ttl lu)
  from get_lazy_expiry [of t "''k''" 1000] st fresh have a: "get 1000 ''k'' t = (Some s, t)"
    by blast
  from get_lazy_expiry [of t "''k''" 1801000] st edge have b: "get 1801000 ''k'' t = (Some s, t)"
    by blast
  from get_lazy_expiry [of t "''k''" 1801001] st stale
  have c: "get 1801001 ''k'' t = (None, delete ''k'' t) \<and> sessions (delete ''k'' t) ''k'' = None"
    by blast
  from get_lazy_expiry [of t "''other''" 1000] so have d: "get 1000 ''other'' t = (None, t)"
    by blast
  have "get 1000 ''k'' t = (Some s, t) \<and> get 1801000 ''k'' t = (Some s, t) \<and>
        fst (get 1801001 ''k'' t) = None \<and> sessions (snd (get 1801001 ''k'' t)) ''k'' = None \<and>
        get 1000 ''other'' t = (None, t)"
    using a b c d by simp
  then show ?thesis
    by (simp only: t_def s_def)
qed

section \<open>The command line of the backend\<close>

text \<open>
  C3. The argument list always holds the session identifier, after \<^verbatim>\<open>--session-id\<close> on a
  first turn and after \<^verbatim>\<open>--resume\<close> on a continuation, and the bound
  \<^verbatim>\<open>--max-turns\<close>; when streaming is requested it holds the output format
  \<^verbatim>\<open>stream-json\<close> with \<^verbatim>\<open>--verbose\<close> and \<^verbatim>\<open>--include-partial-messages\<close>. The
  prompt is no part of the command line: both callers build it from the options alone, the
  same for any two prompts, and hand the prompt to standard input.
\<close>

theorem buildArgs_invariants:
  "sublist [if continueSession opts then ''--resume'' else ''--session-id'', sessionId opts]
     (buildArgs config opts) \<and>
   sublist [''--max-turns'', String_int (maxTurns config)] (buildArgs config opts) \<and>
   (stream opts \<longrightarrow>
      sublist [''--output-format'', ''stream-json'', ''--verbose'', ''--include-partial-messages'']
        (buildArgs config opts)) \<and>
   argv (callClaudeStream_spawn config p opts) = buildArgs config (opts\<lparr>stream := True\<rparr>) \<and>
   stdinWritten (callClaudeStream_spawn config p opts) = p \<and>
   argv (callClaudeStream_spawn config p opts) = argv (callClaudeStream_spawn config p' opts) \<and>
   commandLine (callClaudeSync_exec config p opts)
     = join '' '' (''claude'' # buildArgs config (opts\<lparr>stream := False\<rparr>)) \<and>
   input (callClaudeSync_exec config p opts) = p \<and>
   commandLine (callClaudeSync_exec config p opts) = commandLine (callClaudeSync_exec config p' opts)"
proof -
  have a: "sublist [if continueSession opts then ''--resume'' else ''--session-id'', sessionId opts]
     (buildArgs config opts)"
    unfolding sublist_def buildArgs_def
    by (rule exI [of _ "[''-p'', ''--model'', model opts]"]) auto
  have b: "sublist [''--max-turns'', String_int (maxTurns config)] (buildArgs config opts)"
    unfolding buildArgs_def
    by (intro suffix_imp_sublist) (simp add: suffix_def)
  have c: "sublist [''--output-format'', ''stream-json'', ''--verbose'', ''--include-partial-messages'']
        (buildArgs config opts)" if "stream opts"
  proof -
    have "buildArgs config opts =
        [''-p'', ''--model'', model opts,
          if continueSession opts then ''--resume'' else ''--session-id'', sessionId opts]
        @ [''--output-format'', ''stream-json'', ''--verbose'', ''--include-partial-messages'']
        @ ([''--allowedTools'', tools opts]
           @ (if truthy (opts_systemPrompt opts)
              then [''--system-prompt'', the (opts_systemPrompt opts)] else [])
           @ [''--max-turns'', String_int (maxTurns config)])"
      using that by (simp add: buildArgs_def)
    then show ?thesis
      by (simp only: sublist_appendI)
  qed
  show ?thesis
    using a b c by (simp add: callClaudeStream_spawn_def callClaudeSync_exec_def Let_def)
qed

theorem buildArgs_invariants_witness:
  "stream \<lparr>model = ''opus'', opts_systemPrompt = Some ''be brief'', sessionId = ''id-1'',
           continueSession = False, stream = True, tools = ''Bash,Read''\<rparr> \<and>
   sublist [''--session-id'', ''id-1'']
     (buildArgs \<lparr>port = 3457, defaultModel = ''sonnet'', config_tools = ''Bash,Read'', maxTurns = 15,
                 timeoutMs = 300000, maxBufferBytes = 52428800, sessionTtlMs = 1800000\<rparr>
        \<lparr>model = ''opus'', opts_systemPrompt = Some ''be brief'', sessionId = ''id-1'',
          continueSession = False, stream = True, tools = ''Bash,Read''\<rparr>) \<and>
   sublist [''--max-turns'', ''15'']
     (buildArgs \<lparr>port = 3457, defaultModel = ''sonnet'', config_tools = ''Bash,Read'', maxTurns = 15,
                 timeoutMs = 300000, maxBufferBytes = 52428800, sessionTtlMs = 1800000\<rparr>
        \<lparr>model = ''opus'', opts_systemPrompt = Some ''be brief'', sessionId = ''id-1'',
          continueSession = False, stream = True, tools = ''Bash,Read''\<rparr>) \<and>
   sublist [''--output-format'', ''stream-json'', ''--verbose'', ''--include-partial-messages'']
     (buildArgs \<lparr>port = 3457, defaultModel = ''sonnet'', config_tools = ''Bash,Read'', maxTurns = 15,
                 timeoutMs = 300000, maxBufferBytes = 52428800, sessionTtlMs = 1800000\<rparr>
        \<lparr>model = ''opus'', opts_systemPrompt = Some ''be brief'', sessionId = ''id-1'',
          continueSession = False, stream = True, tools = ''Bash,Read''\<rparr>) \<and>
   stdinWritten (callClaudeStream_spawn
        \<lparr>port = 3457, defaultModel = ''sonnet'', config_tools = ''Bash,Read'', maxTurns = 15,
          timeoutMs = 300000, maxBufferBytes = 52428800, sessionTtlMs = 1800000\<rparr>
        ''User: hi''
        \<lparr>model = ''opus'', opts_systemPrompt = Some ''be brief'', sessionId = ''id-1'',
          continueSession = False, stream = True, tools = ''Bash,Read''\<rparr>) = ''User: hi''"
proof -
  have n: "String_int 15 = ''15''" by code_simp
  show ?thesis
    using buildArgs_invariants
      [of "\<lparr>model = ''opus'', opts_systemPrompt = Some ''be brief'', sessionId = ''id-1'',
          continueSession = False, stream = True, tools = ''Bash,Read''\<rparr>"
        "\<lparr>port = 3457, defaultModel = ''sonnet'', config_tools = ''Bash,Read'', maxTurns = 15,
          timeoutMs = 300000, maxBufferBytes = 52428800, sessionTtlMs = 1800000\<rparr>"
        "''User: hi''" "''User: hi''"]
    by (simp add: n)
qed

section \<open>The conversation key\<close>

lemma makeKey_fingerprint:
  "\<not> truthy conversationId \<Longrightarrow>
   makeKey conversationId messages =
     ''conv-'' @ base36 (nat \<bar>sint (foldl hashStep 0
        (join ''|'' (map (\<lambda>(r, t). roleString r @ '':'' @ t) (keySignature messages))))\<bar>)"
  by (simp add: makeKey_def keySignature_def substring0_def Let_def comp_def)

text \<open>A key is never empty, so the orchestrator always hands \<^verbatim>\<open>handleError\<close> a key that
  it takes as given.\<close>

lemma makeKey_nonempty: "makeKey conversationId messages \<noteq> []"
  by (cases conversationId) (simp_all add: makeKey_def truthy_def Let_def)

text \<open>
  C10. With no conversation identifier supplied (none, or an empty one, which the source
  treats alike), two message lists that agree on the roles and on the first 200 characters
  of the texts of their first three messages get the same key; with an identifier supplied,
  the key is the identifier, whatever the messages.
\<close>

theorem makeKey_depends_on_signature:
  "(\<not> truthy conversationId \<and> \<not> truthy conversationId' \<and>
    keySignature messages = keySignature messages' \<longrightarrow>
      makeKey conversationId messages = makeKey conversationId' messages') \<and>
   (truthy conversationId \<longrightarrow> makeKey conversationId messages = the conversationId) \<and>
   (truthy conversationId \<longleftrightarrow> (\<exists>c. conversationId = Some c \<and> c \<noteq> []))"
proof -
  have "truthy conversationId \<longleftrightarrow> (\<exists>c. conversationId = Some c \<and> c \<noteq> [])"
    by (cases conversationId) (simp_all add: truthy_def)
  moreover have "truthy conversationId \<longrightarrow> makeKey conversationId messages = the conversationId"
    by (simp add: makeKey_def)
  ultimately show ?thesis
    by (simp add: makeKey_fingerprint)
qed

theorem makeKey_depends_on_signature_witness:
  "\<not> truthy None \<and>
   keySignature [\<lparr>role = User, content = Str ''hello''\<rparr>, \<lparr>role = Assistant, content = Str ''hi''\<rparr>,
                 \<lparr>role = User, content = Str (longText @ ''x'')\<rparr>,
                 \<lparr>role = User, content = Str ''later''\<rparr>]
     = keySignature [\<lparr>role = User, content = Str ''hello''\<rparr>, \<lparr>role = Assistant, content = Str ''hi''\<rparr>,
                 \<lparr>role = User, content = Str (longText @ ''y'')\<rparr>] \<and>
   makeKey None [\<lparr>role = User, content = Str ''hello''\<rparr>, \<lparr>role = Assistant, content = Str ''hi''\<rparr>,
                 \<lparr>role = User, content = Str (longText @ ''x'')\<rparr>,
                 \<lparr>role = User, content = Str ''later''\<rparr>]
     = makeKey None [\<lparr>role = User, content = Str ''hello''\<rparr>, \<lparr>role = Assistant, content = Str ''hi''\<rparr>,
                 \<lparr>role = User, content = Str (longText @ ''y'')\<rparr>] \<and>
   truthy (Some ''chat-42'') \<and>
   makeKey (Some ''chat-42'') [\<lparr>role = User, content = Str ''hello''\<rparr>] = ''chat-42''"
proof -
  have n: "\<not> truthy None" and y: "truthy (Some ''chat-42'')"
    by (simp_all add: truthy_def)
  have e: "keySignature [\<lparr>role = User, content = Str ''hello''\<rparr>, \<lparr>role = Assistant, content = Str ''hi''\<rparr>,
                 \<lparr>role = User, content = Str (longText @ ''x'')\<rparr>,
                 \<lparr>role = User, content = Str ''later''\<rparr>]
     = keySignature [\<lparr>role = User, content = Str ''hello''\<rparr>, \<lparr>role = Assistant, content = Str ''hi''\<rparr>,
                 \<lparr>role = User, content = Str (longText @ ''y'')\<rparr>]"
    by (simp add: keySignature_def keyText_def length_longText)
  from n e y
    makeKey_depends_on_signature [of None None
      "[\<lparr>role = User, content = Str ''hello''\<rparr>, \<lparr>role = Assistant, content = Str ''hi''\<rparr>,
                 \<lparr>role = User, content = Str (longText @ ''x'')\<rparr>,
                 \<lparr>role = User, content = Str ''later''\<rparr>]"
      "[\<lparr>role = User, content = Str ''hello''\<rparr>, \<lparr>role = Assistant, content = Str ''hi''\<rparr>,
                 \<lparr>role = User, content = Str (longText @ ''y'')\<rparr>]"]
    makeKey_depends_on_signature [of "Some ''chat-42''" None "[\<lparr>role = User, content = Str ''hello''\<rparr>]" "[]"]
  show ?thesis
    by simp
qed

section \<open>The streaming state machine\<close>

text \<open>The equations of the loop are unfolded where they are needed only.\<close>

declare streamLoop.simps [simp del]

text \<open>While the thinking block is open every event is skipped, but a result event and the stop
  of a block; outside a block a thinking delta is skipped.\<close>

lemma streamLoop_inside_skip:
  "\<forall>(t, e) \<in> set mid. \<not> isResult e \<and> \<not> isBlockStop e \<Longrightarrow>
   streamLoop cid m k True res tr (mid @ rest) fin = streamLoop cid m k True res tr rest fin"
proof (induction mid)
  case Nil
  then show ?case by simp
next
  case (Cons p mid)
  obtain t e where p: "p = (t, e)" by (cases p)
  from Cons.prems p have e: "\<not> isResult e" "\<not> isBlockStop e" by auto
  from Cons.prems have rest: "\<forall>(t, e) \<in> set mid. \<not> isResult e \<and> \<not> isBlockStop e" by auto
  show ?case
    using e Cons.IH [OF rest]
    by (auto simp: p isResult_def isBlockStop_def Let_def streamLoop.simps split: option.splits)
qed

lemma streamLoop_thinking_skip:
  "\<forall>(t, e) \<in> set tds. isThinkingDelta e \<Longrightarrow>
   streamLoop cid m k False res tr (tds @ rest) fin = streamLoop cid m k False res tr rest fin"
proof (induction tds)
  case Nil
  then show ?case by simp
next
  case (Cons p tds)
  obtain t e where p: "p = (t, e)" by (cases p)
  from Cons.prems p have e: "isThinkingDelta e" by auto
  from Cons.prems have rest: "\<forall>(t, e) \<in> set tds. isThinkingDelta e" by auto
  show ?case
    using e Cons.IH [OF rest]
    by (auto simp: p isThinkingDelta_def Let_def streamLoop.simps split: option.splits)
qed

lemma streamLoop_blockStart:
  "streamLoop cid m k inside res tr ((t, blockStart ''thinking'') # rest) fin
     = streamLoop cid m k True res tr rest fin"
  by (simp add: blockStart_def streamEvent_def streamLoop.simps)

lemma streamLoop_blockStop:
  "streamLoop cid m k True res tr ((t, blockStop) # rest) fin
     = streamLoop cid m k False res tr rest fin"
  by (simp add: blockStop_def streamEvent_def streamLoop.simps)

lemma streamLoop_text_result:
  "x \<noteq> [] \<Longrightarrow>
   streamLoop cid m k False res tr [(t, deltaEvent ''text_delta'' x), (t', resultEvent)] fin
     = (None, res_end (res_write (formatSSEDone t' cid m) (res_write (formatSSEChunk t cid x m) res)),
        touch t' k tr)"
  by (simp add: deltaEvent_def resultEvent_def streamEvent_def truthy_def streamLoop.simps)

text \<open>
  C1. On the events: start of a reasoning block, any events that are neither a result nor a
  block stop (the reasoning deltas, and text fragments nested in the block), the block
  stop, any deltas tagged as thinking deltas, a text delta carrying a non-empty text, and a
  result, \<^verbatim>\<open>handleStream\<close> writes exactly two strings: the incremental frame of that text
  and the terminal frame; it closes the response and touches the session. No frame comes
  from the events inside the block or from the thinking deltas. The incremental frame holds
  the text as the JSON string under the key \<^verbatim>\<open>content\<close>, between quotation marks as it is
  when it has no character to escape; it does not end with the terminal marker, the
  terminal frame does, so the two frames differ.
\<close>

theorem handleStream_filters_reasoning:
  assumes mid: "\<forall>(t, e) \<in> set mid. \<not> isResult e \<and> \<not> isBlockStop e"
    and tds: "\<forall>(t, e) \<in> set tds. isThinkingDelta e"
    and x: "x \<noteq> []"
  shows "handleStream start
           ([(t1, blockStart ''thinking'')] @ mid @ [(t2, blockStop)] @ tds
              @ [(t3, deltaEvent ''text_delta'' x), (t4, resultEvent)])
           fin modelName convKey freshResponse tracker
         = (\<lparr>statusCode = Some 200,
             written = [formatSSEChunk t3 (''chatcmpl-'' @ String_int start) x modelName,
                        formatSSEDone t4 (''chatcmpl-'' @ String_int start) modelName],
             writableEnded = True\<rparr>,
            touch t4 convKey tracker) \<and>
         sublist (jsonKey ''content'' @ JSON_string x)
           (formatSSEChunk t3 (''chatcmpl-'' @ String_int start) x modelName) \<and>
         ((\<forall>c \<in> set x. jsonEscape c = [c]) \<longrightarrow>
            sublist ([CHR 0x22] @ x @ [CHR 0x22])
              (formatSSEChunk t3 (''chatcmpl-'' @ String_int start) x modelName)) \<and>
         \<not> suffix doneMarker (formatSSEChunk t3 (''chatcmpl-'' @ String_int start) x modelName) \<and>
         suffix doneMarker (formatSSEDone t4 (''chatcmpl-'' @ String_int start) modelName) \<and>
         formatSSEChunk t3 (''chatcmpl-'' @ String_int start) x modelName
           \<noteq> formatSSEDone t4 (''chatcmpl-'' @ String_int start) modelName"
proof -
  let ?cid = "''chatcmpl-'' @ String_int start"
  let ?res = "freshResponse\<lparr>statusCode := Some 200\<rparr>"
  have "streamLoop ?cid modelName convKey False ?res tracker
          ([(t1, blockStart ''thinking'')] @ mid @ [(t2, blockStop)] @ tds
              @ [(t3, deltaEvent ''text_delta'' x), (t4, resultEvent)]) fin
        = streamLoop ?cid modelName convKey True ?res tracker
            (mid @ ((t2, blockStop) # tds @ [(t3, deltaEvent ''text_delta'' x), (t4, resultEvent)])) fin"
    by (simp add: streamLoop_blockStart)
  also have "\<dots> = streamLoop ?cid modelName convKey True ?res tracker
            ((t2, blockStop) # tds @ [(t3, deltaEvent ''text_delta'' x), (t4, resultEvent)]) fin"
    by (rule streamLoop_inside_skip [OF mid])
  also have "\<dots> = streamLoop ?cid modelName convKey False ?res tracker
            (tds @ [(t3, deltaEvent ''text_delta'' x), (t4, resultEvent)]) fin"
    by (rule streamLoop_blockStop)
  also have "\<dots> = streamLoop ?cid modelName convKey False ?res tracker
            [(t3, deltaEvent ''text_delta'' x), (t4, resultEvent)] fin"
    by (rule streamLoop_thinking_skip [OF tds])
  also have "\<dots> = (None, res_end (res_write (formatSSEDone t4 ?cid modelName)
                        (res_write (formatSSEChunk t3 ?cid x modelName) ?res)),
                     touch t4 convKey tracker)"
    by (rule streamLoop_text_result [OF x])
  finally have run: "handleStream start
           ([(t1, blockStart ''thinking'')] @ mid @ [(t2, blockStop)] @ tds
              @ [(t3, deltaEvent ''text_delta'' x), (t4, resultEvent)])
           fin modelName convKey freshResponse tracker
         = (\<lparr>statusCode = Some 200,
             written = [formatSSEChunk t3 ?cid x modelName, formatSSEDone t4 ?cid modelName],
             writableEnded = True\<rparr>,
            touch t4 convKey tracker)"
    by (simp add: handleStream_def Let_def res_end_def res_write_def freshResponse_def)
  have plain: "(\<forall>c \<in> set x. jsonEscape c = [c]) \<longrightarrow>
            sublist ([CHR 0x22] @ x @ [CHR 0x22]) (formatSSEChunk t3 ?cid x modelName)"
    using formatSSEChunk_carries_plain [of x t3 ?cid modelName] by blast
  from run plain show ?thesis
    using formatSSEChunk_carries [of x t3 ?cid modelName]
      formatSSEChunk_not_done [of t3 ?cid x modelName]
      formatSSEDone_suffix [of t4 ?cid modelName]
      formatSSEChunk_not_formatSSEDone [of t3 ?cid x modelName t4 ?cid modelName]
    by (intro conjI) assumption+
qed

theorem handleStream_filters_reasoning_witness:
  "\<not> isResult (deltaEvent ''thinking_delta'' ''pondering'') \<and>
   \<not> isBlockStop (deltaEvent ''thinking_delta'' ''pondering'') \<and>
   \<not> isResult (deltaEvent ''text_delta'' ''nested'') \<and>
   \<not> isBlockStop (deltaEvent ''text_delta'' ''nested'') \<and>
   isThinkingDelta (deltaEvent ''thinking_delta'' ''stray'') \<and>
   ''X'' \<noteq> [] \<and>
   jsonEscape CHR ''X'' = ''X'' \<and>
   handleStream 1700000000000
     [(1700000000100, blockStart ''thinking''),
      (1700000000200, deltaEvent ''thinking_delta'' ''pondering''),
      (1700000000300, blockStop),
      (1700000000400, deltaEvent ''text_delta'' ''X''),
      (1700000000500, resultEvent)]
     (Returned 1700000000600) ''claude-sonnet'' ''conv-1'' freshResponse exampleTracker
   = (\<lparr>statusCode = Some 200, written = [exampleTextFrame, exampleDoneFrame], writableEnded = True\<rparr>,
      touch 1700000000500 ''conv-1'' exampleTracker) \<and>
   handleStream 1700000000000
     [(1700000000100, blockStart ''thinking''),
      (1700000000200, deltaEvent ''thinking_delta'' ''pondering''),
      (1700000000250, deltaEvent ''text_delta'' ''nested''),
      (1700000000300, blockStop),
      (1700000000350, deltaEvent ''thinking_delta'' ''stray''),
      (1700000000400, deltaEvent ''text_delta'' ''X''),
      (1700000000500, resultEvent)]
     (Returned 1700000000600) ''claude-sonnet'' ''conv-1'' freshResponse exampleTracker
   = (\<lparr>statusCode = Some 200, written = [exampleTextFrame, exampleDoneFrame], writableEnded = True\<rparr>,
      touch 1700000000500 ''conv-1'' exampleTracker) \<and>
   sublist [CHR 0x22, CHR ''X'', CHR 0x22] exampleTextFrame \<and>
   \<not> suffix doneMarker exampleTextFrame \<and>
   suffix doneMarker exampleDoneFrame \<and>
   exampleTextFrame \<noteq> exampleDoneFrame"
proof -
  have m: "\<not> isResult (deltaEvent ''thinking_delta'' ''pondering'')"
      "\<not> isBlockStop (deltaEvent ''thinking_delta'' ''pondering'')"
      "\<not> isResult (deltaEvent ''text_delta'' ''nested'')"
      "\<not> isBlockStop (deltaEvent ''text_delta'' ''nested'')"
    and t: "isThinkingDelta (deltaEvent ''thinking_delta'' ''stray'')"
    by (simp_all add: isResult_def isBlockStop_def isThinkingDelta_def deltaEvent_def streamEvent_def)
  have x: "''X'' \<noteq> []" by simp
  have p: "jsonEscape CHR ''X'' = ''X''"
    by (simp add: jsonEscape_def)
  then have p': "\<forall>c \<in> set ''X''. jsonEscape c = [c]" by simp
  have m1: "\<forall>(t, e) \<in> set [(1700000000200 :: int, deltaEvent ''thinking_delta'' ''pondering'')].
             \<not> isResult e \<and> \<not> isBlockStop e"
    and m2: "\<forall>(t, e) \<in> set [(1700000000200 :: int, deltaEvent ''thinking_delta'' ''pondering''),
                               (1700000000250, deltaEvent ''text_delta'' ''nested'')].
             \<not> isResult e \<and> \<not> isBlockStop e"
    and t0: "\<forall>(t, e) \<in> set ([] :: (int \<times> StreamEvent) list). isThinkingDelta e"
    and t1: "\<forall>(t, e) \<in> set [(1700000000350 :: int, deltaEvent ''thinking_delta'' ''stray'')].
             isThinkingDelta e"
    using m t by simp_all
  have c: "formatSSEChunk 1700000000400 (''chatcmpl-'' @ String_int 1700000000000) ''X'' ''claude-sonnet''
             = exampleTextFrame"
    and d: "formatSSEDone 1700000000500 (''chatcmpl-'' @ String_int 1700000000000) ''claude-sonnet''
             = exampleDoneFrame"
    by (simp_all add: String_int_millis chunk_X_literal done_literal)
  note i1 = handleStream_filters_reasoning [OF m1 t0 x, of 1700000000000 1700000000100
      1700000000300 1700000000400 1700000000500 "Returned 1700000000600"
      "''claude-sonnet''" "''conv-1''" exampleTracker, unfolded c d]
  note i2 = handleStream_filters_reasoning [OF m2 t1 x, of 1700000000000 1700000000100
      1700000000300 1700000000400 1700000000500 "Returned 1700000000600"
      "''claude-sonnet''" "''conv-1''" exampleTracker, unfolded c d]
  from i1 p' have q: "sublist [CHR 0x22, CHR ''X'', CHR 0x22] exampleTextFrame"
    by simp
  from i1 i2 q m t x p show ?thesis
    by simp
qed

text \<open>One round of the loop either ends the stream, at a result event, or goes on with the
  response as it is or with one more text frame.\<close>

lemma firstResult_Cons:
  "firstResult ((t, ev) # rest) = (if isResult ev then Some t else firstResult rest)"
  by (simp add: firstResult_def)

lemma streamLoop_result:
  "isResult ev \<Longrightarrow>
   streamLoop cid m k inside res tr ((t, ev) # rest) fin
     = (None, res_end (res_write (formatSSEDone t cid m) res), touch t k tr)"
  by (simp add: streamLoop.simps isResult_def)

lemma streamLoop_step:
  assumes "\<not> isResult ev"
  shows "(\<exists>inside'. streamLoop cid m k inside res tr ((t, ev) # rest) fin
             = streamLoop cid m k inside' res tr rest fin) \<or>
         (\<exists>x. streamLoop cid m k inside res tr ((t, ev) # rest) fin
             = streamLoop cid m k inside (res_write (formatSSEChunk t cid x m) res) tr rest fin)"
  using assms
  by (simp add: streamLoop.simps isResult_def Let_def) blast

lemma streamLoop_shape:
  "\<exists>chunks. (\<forall>c \<in> set chunks. \<exists>now x. c = formatSSEChunk now cid x m) \<and>
     streamLoop cid m k inside res tr events fin
       = streamOutcome cid m k res tr chunks (firstResult events) fin"
proof (induction events arbitrary: inside res)
  case Nil
  have "streamLoop cid m k inside res tr [] fin = streamOutcome cid m k res tr [] (firstResult []) fin"
    by (cases fin) (simp_all add: streamLoop.simps streamOutcome_def firstResult_def res_end_def res_write_def)
  then show ?case
    by (intro exI [of _ "[]"]) simp
next
  case (Cons p rest)
  obtain t ev where p: "p = (t, ev)" by (cases p)
  show ?case
  proof (cases "isResult ev")
    case True
    then have "streamLoop cid m k inside res tr (p # rest) fin
        = streamOutcome cid m k res tr [] (firstResult (p # rest)) fin"
      by (simp add: p streamLoop_result firstResult_Cons streamOutcome_def res_end_def res_write_def)
    then show ?thesis
      by (intro exI [of _ "[]"]) simp
  next
    case False
    then have fr: "firstResult (p # rest) = firstResult rest"
      by (simp add: p firstResult_Cons)
    from streamLoop_step [OF False, of cid m k inside res tr t rest fin]
    consider (same) inside' where
        "streamLoop cid m k inside res tr (p # rest) fin = streamLoop cid m k inside' res tr rest fin"
      | (wrote) x where
        "streamLoop cid m k inside res tr (p # rest) fin
           = streamLoop cid m k inside (res_write (formatSSEChunk t cid x m) res) tr rest fin"
      unfolding p by blast
    then show ?thesis
    proof cases
      case same
      from Cons.IH [of inside' res] same fr show ?thesis
        by simp
    next
      case wrote
      from Cons.IH [of inside "res_write (formatSSEChunk t cid x m) res"]
      obtain chunks where c: "\<forall>c \<in> set chunks. \<exists>now x. c = formatSSEChunk now cid x m"
        and l: "streamLoop cid m k inside (res_write (formatSSEChunk t cid x m) res) tr rest fin
                 = streamOutcome cid m k (res_write (formatSSEChunk t cid x m) res) tr chunks
                     (firstResult rest) fin"
        by blast
      have "streamOutcome cid m k (res_write (formatSSEChunk t cid x m) res) tr chunks (firstResult rest) fin
          = streamOutcome cid m k res tr (formatSSEChunk t cid x m # chunks) (firstResult rest) fin"
        by (simp add: streamOutcome_def res_write_def split: option.splits stream_end.splits)
      with l wrote fr have "streamLoop cid m k inside res tr (p # rest) fin
          = streamOutcome cid m k res tr (formatSSEChunk t cid x m # chunks) (firstResult (p # rest)) fin"
        by simp
      moreover from c have "\<forall>c \<in> set (formatSSEChunk t cid x m # chunks). \<exists>now x. c = formatSSEChunk now cid x m"
        by auto
      ultimately show ?thesis
        by blast
    qed
  qed
qed


text \<open>
  C8. On a response that is still open, for every finite run of the backend's stream,
  \<^verbatim>\<open>handleStream\<close> closes the response, and what it wrote ends with the terminal marker
  \<^verbatim>\<open>data: [DONE]\<close>. After the text frames it forwarded it writes: at the first result
  event, the terminal frame, and it touches the session; when the run ends with no result
  event, the same; when the generator throws, one error frame and then the terminal marker,
  with the tracker as \<^verbatim>\<open>handleError\<close> leaves it. Touching sets the last use of the session
  of the key to the clock and counts one more turn and one more message, and leaves the
  other sessions as they are. The error frame holds the message, the type and the code of
  the envelope of \<^verbatim>\<open>handleError\<close>, and is not the terminal marker.
\<close>

theorem handleStream_ends_with_done:
  assumes "\<not> writableEnded res"
  shows "\<exists>chunks.
     (\<forall>c \<in> set chunks.
        (\<exists>now x. c = formatSSEChunk now (''chatcmpl-'' @ String_int start) x modelName) \<and>
        (\<forall>body. c \<noteq> errorFrame body)) \<and>
     handleStream start events fin modelName convKey res tracker =
       (case firstResult events of
          Some now \<Rightarrow>
            (\<lparr>statusCode = Some 200,
              written = written res @ chunks
                @ [formatSSEDone now (''chatcmpl-'' @ String_int start) modelName],
              writableEnded = True\<rparr>,
             touch now convKey tracker)
        | None \<Rightarrow>
            (case fin of
               Returned now \<Rightarrow>
                 (\<lparr>statusCode = Some 200,
                   written = written res @ chunks
                     @ [formatSSEDone now (''chatcmpl-'' @ String_int start) modelName],
                   writableEnded = True\<rparr>,
                  touch now convKey tracker)
             | Threw e \<Rightarrow>
                 (\<lparr>statusCode = Some 200,
                   written = written res @ chunks
                     @ [errorFrame (snd (fst (handleError e (Some convKey) tracker))), doneMarker],
                   writableEnded = True\<rparr>,
                  snd (handleError e (Some convKey) tracker)))) \<and>
     writableEnded (fst (handleStream start events fin modelName convKey res tracker)) \<and>
     suffix doneMarker (concat (written (fst (handleStream start events fin modelName convKey res tracker)))) \<and>
     (\<forall>now s. sessions tracker convKey = Some s \<longrightarrow>
        sessions (touch now convKey tracker) convKey =
          Some (s\<lparr>lastUsedAt := now, turnCount := turnCount s + 1,
                  messageCount := messageCount s + 1\<rparr>)) \<and>
     (\<forall>now k. k \<noteq> convKey \<longrightarrow> sessions (touch now convKey tracker) k = sessions tracker k) \<and>
     (\<forall>body.
        sublist (jsonKey ''message'' @ JSON_string (err_message body)) (errorFrame body) \<and>
        sublist (jsonKey ''type'' @ JSON_string (err_type body)) (errorFrame body) \<and>
        sublist (jsonKey ''code'' @ JSON_string (err_code body)) (errorFrame body) \<and>
        \<not> suffix doneMarker (errorFrame body) \<and>
        errorFrame body \<noteq> doneMarker)"
proof -
  let ?cid = "''chatcmpl-'' @ String_int start"
  let ?res = "res\<lparr>statusCode := Some 200\<rparr>"
  from streamLoop_shape [of ?cid modelName convKey False ?res tracker events fin]
  obtain chunks where c: "\<forall>c \<in> set chunks. \<exists>now x. c = formatSSEChunk now ?cid x modelName"
    and l: "streamLoop ?cid modelName convKey False ?res tracker events fin
              = streamOutcome ?cid modelName convKey ?res tracker chunks (firstResult events) fin"
    by blast
  from c have c': "\<forall>c \<in> set chunks.
        (\<exists>now x. c = formatSSEChunk now ?cid x modelName) \<and> (\<forall>body. c \<noteq> errorFrame body)"
    by (metis formatSSEChunk_not_errorFrame)
  have h: "handleStream start events fin modelName convKey res tracker =
       (case firstResult events of
          Some now \<Rightarrow>
            (\<lparr>statusCode = Some 200,
              written = written res @ chunks @ [formatSSEDone now ?cid modelName],
              writableEnded = True\<rparr>,
             touch now convKey tracker)
        | None \<Rightarrow>
            (case fin of
               Returned now \<Rightarrow>
                 (\<lparr>statusCode = Some 200,
                   written = written res @ chunks @ [formatSSEDone now ?cid modelName],
                   writableEnded = True\<rparr>,
                  touch now convKey tracker)
             | Threw e \<Rightarrow>
                 (\<lparr>statusCode = Some 200,
                   written = written res @ chunks
                     @ [errorFrame (snd (fst (handleError e (Some convKey) tracker))), doneMarker],
                   writableEnded = True\<rparr>,
                  snd (handleError e (Some convKey) tracker))))"
  proof (cases "firstResult events")
    case (Some now)
    show ?thesis
      unfolding handleStream_def Let_def l
      by (simp add: Some streamOutcome_def)
  next
    case None
    show ?thesis
    proof (cases fin)
      case (Returned now)
      show ?thesis
        unfolding handleStream_def Let_def l
        by (simp add: None Returned streamOutcome_def)
    next
      case (Threw e)
      show ?thesis
        unfolding handleStream_def Let_def l
        using assms
        by (simp add: None Threw streamOutcome_def res_end_def res_write_def doneMarker_def
              split: prod.splits)
    qed
  qed
  have e: "writableEnded (fst (handleStream start events fin modelName convKey res tracker))"
    by (simp add: h split: option.splits stream_end.splits)
  have d: "suffix doneMarker (concat (written (fst (handleStream start events fin modelName convKey res tracker))))"
    by (simp add: h suffix_appendI formatSSEDone_suffix split: option.splits stream_end.splits)
  have t: "\<forall>now s. sessions tracker convKey = Some s \<longrightarrow>
        sessions (touch now convKey tracker) convKey =
          Some (s\<lparr>lastUsedAt := now, turnCount := turnCount s + 1,
                  messageCount := messageCount s + 1\<rparr>)"
    by (simp add: touch_present)
  have o: "\<forall>now k. k \<noteq> convKey \<longrightarrow> sessions (touch now convKey tracker) k = sessions tracker k"
    by (simp add: touch_other)
  have "errorFrame body \<noteq> doneMarker" for body
    using errorFrame_not_done [of body] by auto
  then have f: "\<forall>body.
        sublist (jsonKey ''message'' @ JSON_string (err_message body)) (errorFrame body) \<and>
        sublist (jsonKey ''type'' @ JSON_string (err_type body)) (errorFrame body) \<and>
        sublist (jsonKey ''code'' @ JSON_string (err_code body)) (errorFrame body) \<and>
        \<not> suffix doneMarker (errorFrame body) \<and>
        errorFrame body \<noteq> doneMarker"
    using errorFrame_carries errorFrame_not_done by blast
  from c' h e d t o f show ?thesis
    by blast
qed

theorem handleStream_ends_with_done_witness:
  "\<not> writableEnded freshResponse \<and>
   handleStream 1700000000000
     [(1700000000400, deltaEvent ''text_delta'' ''X''), (1700000000500, resultEvent)]
     (Returned 1700000000600) ''claude-sonnet'' ''conv-1'' freshResponse exampleTracker
   = (\<lparr>statusCode = Some 200, written = [exampleTextFrame, exampleDoneFrame], writableEnded = True\<rparr>,
      touch 1700000000500 ''conv-1'' exampleTracker) \<and>
   sessions (touch 1700000000500 ''conv-1'' exampleTracker) ''conv-1'' =
     Some \<lparr>claudeSessionId = ''uuid-1'', turnCount = 1, lastUsedAt = 1700000000500, messageCount = 1\<rparr> \<and>
   handleStream 1700000000000 [(1700000000400, deltaEvent ''text_delta'' ''X'')]
     (Returned 1700000000600) ''claude-sonnet'' ''conv-1'' freshResponse exampleTracker
   = (\<lparr>statusCode = Some 200, written = [exampleTextFrame, exampleDoneFrame], writableEnded = True\<rparr>,
      touch 1700000000600 ''conv-1'' exampleTracker) \<and>
   sessions (touch 1700000000600 ''conv-1'' exampleTracker) ''conv-1'' =
     Some \<lparr>claudeSessionId = ''uuid-1'', turnCount = 1, lastUsedAt = 1700000000600, messageCount = 1\<rparr> \<and>
   handleStream 1700000000000 [(1700000000400, deltaEvent ''text_delta'' ''X'')]
     (Threw \<lparr>errMessage = ''Claude CLI exited with code 1'', killed = False\<rparr>)
     ''claude-sonnet'' ''conv-1'' freshResponse exampleTracker
   = (\<lparr>statusCode = Some 200,
       written = [exampleTextFrame, exampleErrorFrame, ''data: [DONE]\<newline>\<newline>''],
       writableEnded = True\<rparr>,
      exampleTracker) \<and>
   sessions exampleTracker ''conv-1'' =
     Some \<lparr>claudeSessionId = ''uuid-1'', turnCount = 0, lastUsedAt = 1700000000000, messageCount = 0\<rparr> \<and>
   suffix doneMarker (exampleTextFrame @ exampleDoneFrame) \<and>
   suffix doneMarker (exampleTextFrame @ exampleErrorFrame @ ''data: [DONE]\<newline>\<newline>'') \<and>
   \<not> suffix doneMarker exampleErrorFrame"
proof -
  let ?e = "\<lparr>errMessage = ''Claude CLI exited with code 1'', killed = False\<rparr>"
  let ?s = "\<lparr>claudeSessionId = ''uuid-1'', turnCount = 0, lastUsedAt = 1700000000000, messageCount = 0\<rparr>"
  have f: "\<not> writableEnded freshResponse"
    by (simp add: freshResponse_def)
  have s: "sessions exampleTracker ''conv-1'' = Some ?s"
    by (simp add: exampleTracker_def)
  note eval = handleStream_def Let_def streamLoop.simps deltaEvent_def streamEvent_def resultEvent_def
    truthy_def res_write_def res_end_def freshResponse_def String_int_millis chunk_X_literal
    done_literal handleError_exit_code errorFrame_literal
  have r1: "handleStream 1700000000000
     [(1700000000400, deltaEvent ''text_delta'' ''X''), (1700000000500, resultEvent)]
     (Returned 1700000000600) ''claude-sonnet'' ''conv-1'' freshResponse exampleTracker
   = (\<lparr>statusCode = Some 200, written = [exampleTextFrame, exampleDoneFrame], writableEnded = True\<rparr>,
      touch 1700000000500 ''conv-1'' exampleTracker)"
    by (simp add: eval)
  have r2: "handleStream 1700000000000 [(1700000000400, deltaEvent ''text_delta'' ''X'')]
     (Returned 1700000000600) ''claude-sonnet'' ''conv-1'' freshResponse exampleTracker
   = (\<lparr>statusCode = Some 200, written = [exampleTextFrame, exampleDoneFrame], writableEnded = True\<rparr>,
      touch 1700000000600 ''conv-1'' exampleTracker)"
    by (simp add: eval)
  have r3: "handleStream 1700000000000 [(1700000000400, deltaEvent ''text_delta'' ''X'')]
     (Threw ?e) ''claude-sonnet'' ''conv-1'' freshResponse exampleTracker
   = (\<lparr>statusCode = Some 200,
       written = [exampleTextFrame, exampleErrorFrame, ''data: [DONE]\<newline>\<newline>''],
       writableEnded = True\<rparr>,
      exampleTracker)"
    by (simp add: eval)
  note i1 = handleStream_ends_with_done [OF f, of 1700000000000 "''claude-sonnet''"
      "[(1700000000400, deltaEvent ''text_delta'' ''X''), (1700000000500, resultEvent)]"
      "Returned 1700000000600" "''conv-1''" exampleTracker]
  note i2 = handleStream_ends_with_done [OF f, of 1700000000000 "''claude-sonnet''"
      "[(1700000000400, deltaEvent ''text_delta'' ''X'')]"
      "Threw ?e" "''conv-1''" exampleTracker]
  from i1 s have t1: "sessions (touch 1700000000500 ''conv-1'' exampleTracker) ''conv-1'' =
      Some (?s\<lparr>lastUsedAt := 1700000000500, turnCount := turnCount ?s + 1,
               messageCount := messageCount ?s + 1\<rparr>)"
    by blast
  from i1 s have t2: "sessions (touch 1700000000600 ''conv-1'' exampleTracker) ''conv-1'' =
      Some (?s\<lparr>lastUsedAt := 1700000000600, turnCount := turnCount ?s + 1,
               messageCount := messageCount ?s + 1\<rparr>)"
    by blast
  from i1 have d1: "suffix doneMarker (concat (written (fst (handleStream 1700000000000
     [(1700000000400, deltaEvent ''text_delta'' ''X''), (1700000000500, resultEvent)]
     (Returned 1700000000600) ''claude-sonnet'' ''conv-1'' freshResponse exampleTracker))))"
    by blast
  from i2 have d2: "suffix doneMarker (concat (written (fst (handleStream 1700000000000
     [(1700000000400, deltaEvent ''text_delta'' ''X'')]
     (Threw ?e) ''claude-sonnet'' ''conv-1'' freshResponse exampleTracker))))"
    by blast
  from i2 have "\<not> suffix doneMarker (errorFrame \<lparr>err_message = ''Claude CLI error: Claude CLI exited with code 1'',
                err_type = ''server_error'', err_code = ''internal_error''\<rparr>)"
    by blast
  then have n: "\<not> suffix doneMarker exampleErrorFrame"
    by (simp add: errorFrame_literal)
  from d1 have d1': "suffix doneMarker (exampleTextFrame @ exampleDoneFrame)"
    by (simp add: r1)
  from d2 have d2': "suffix doneMarker (exampleTextFrame @ exampleErrorFrame @ ''data: [DONE]\<newline>\<newline>'')"
    by (simp add: r3)
  from t1 have t1': "sessions (touch 1700000000500 ''conv-1'' exampleTracker) ''conv-1'' =
     Some \<lparr>claudeSessionId = ''uuid-1'', turnCount = 1, lastUsedAt = 1700000000500, messageCount = 1\<rparr>"
    by simp
  from t2 have t2': "sessions (touch 1700000000600 ''conv-1'' exampleTracker) ''conv-1'' =
     Some \<lparr>claudeSessionId = ''uuid-1'', turnCount = 1, lastUsedAt = 1700000000600, messageCount = 1\<rparr>"
    by simp
  from f r1 t1' r2 t2' r3 s d1' d2' n show ?thesis
    by blast
qed

end
